theory Spec2Isabelle
  imports Main
begin

section \<open>Resilient browser interaction helpers (function.py)\<close>

text \<open>
  The module consists of four helpers, \<open>input_text\<close>, \<open>click_element\<close>,
  \<open>click_checkbox\<close> and \<open>select_dropdown_option\<close>. Each is a straight-line sequence of
  calls into a Selenium session wrapped in \<^verbatim>\<open>try ... except\<close>. The helpers are embedded as
  computations in a state-and-exception monad over an arbitrary driver; every call into
  the driver is recorded in a trace together with its outcome, and every line handed to
  the logger is recorded in a log.
\<close>

subsection \<open>Data\<close>

text \<open>A locator is the pair (strategy, value), e.g. \<^verbatim>\<open>(By.ID, "my-id")\<close>.\<close>

type_synonym locator = "string \<times> string"

text \<open>An element handle is an opaque reference handed out by the driver.\<close>

datatype element = WebElement locator

text \<open>
  The exception classes the module imports from \<^verbatim>\<open>selenium.common.exceptions\<close>, Python's
  \<^verbatim>\<open>ValueError\<close> (raised by \<^verbatim>\<open>int(option_text)\<close>), \<open>OtherException\<close> for every other
  subclass of \<^verbatim>\<open>Exception\<close>, and the two exceptions that derive from \<^verbatim>\<open>BaseException\<close>
  without deriving from \<^verbatim>\<open>Exception\<close> and that a call can be interrupted with:
  \<^verbatim>\<open>KeyboardInterrupt\<close> and \<^verbatim>\<open>SystemExit\<close>. None of the named classes is a subclass of
  another, so an \<^verbatim>\<open>except\<close> clause for one of them matches exactly that constructor.
\<close>

datatype exn =
    TimeoutException
  | StaleElementReferenceException
  | ElementNotInteractableException
  | NoSuchElementException
  | ElementClickInterceptedException
  | ValueError
  | OtherException
  | KeyboardInterrupt
  | SystemExit

text \<open>\<^verbatim>\<open>isinstance(e, Exception)\<close>: what a clause \<^verbatim>\<open>except Exception\<close> catches. A bare
  \<^verbatim>\<open>except:\<close> catches everything.\<close>

definition is_exception :: "exn \<Rightarrow> bool" where
  "is_exception e = (e \<noteq> KeyboardInterrupt \<and> e \<noteq> SystemExit)"

text \<open>
  The JavaScript snippets passed to \<^verbatim>\<open>driver.execute_script\<close>:
  \<^item> \<open>ScrollIntoView\<close>: \<^verbatim>\<open>arguments[0].scrollIntoView({block: 'center', inline: 'center'});\<close>
  \<^item> \<open>SetReadOnlyFalse\<close>: \<^verbatim>\<open>arguments[0].readOnly = false;\<close>
  \<^item> \<open>SetDisabledFalse\<close>: \<^verbatim>\<open>arguments[0].disabled = false;\<close>
  \<^item> \<open>SetValue\<close>: \<^verbatim>\<open>arguments[0].value = arguments[1];\<close>
  \<^item> \<open>DispatchInput\<close>: \<^verbatim>\<open>arguments[0].dispatchEvent(new Event('input', { bubbles: true }));\<close>
  \<^item> \<open>DispatchChange\<close>: \<^verbatim>\<open>arguments[0].dispatchEvent(new Event('change', { bubbles: true }));\<close>
  \<^item> \<open>JsClick\<close>: \<^verbatim>\<open>arguments[0].click();\<close>
\<close>

datatype script =
    ScrollIntoView
  | SetReadOnlyFalse
  | SetDisabledFalse
  | SetValue
  | DispatchInput
  | DispatchChange
  | JsClick

datatype jsarg = JElem element | JStr string

text \<open>The calls the module makes into the Selenium session.\<close>

datatype call =
    Until_invisibility int locator
  | Until_clickable int locator
  | Until_presence int locator
  | Find_element locator
  | Execute_script script "jsarg list"
  | Is_enabled element
  | Get_attribute element string
  | Clear element
  | Send_keys element string
  | Click element
  | Is_selected element
  | Select_init element
  | Select_by_visible_text element string
  | Select_by_value element string
  | Select_by_index element int
  | First_selected_option_text element
  | Options_text element

datatype val =
    VNone
  | VElem element
  | VBool bool
  | VAttr "string option"
  | VStr string
  | VStrs "string list"

datatype outcome = Raised exn | Returned val

datatype level = INFO | WARNING | ERROR

text \<open>
  A log line is recorded as its level, the fixed text of the f-string and the values
  interpolated into it, in order.
\<close>

datatype logarg =
    ALoc locator
  | AStr string
  | AInt int
  | ABool bool
  | AExn exn
  | AStrs "string list"

type_synonym logline = "level \<times> string \<times> logarg list"

subsection \<open>The driver\<close>

text \<open>
  The Selenium session is external to the module. It is a parameter of the model: a
  state type \<open>'s\<close> and, for each call the module makes, a function that returns either
  the exception raised or the value returned, and the next state. The waits
  \<^verbatim>\<open>WebDriverWait(driver, t).until(EC.c(locator))\<close> are single calls: Selenium bounds
  them by \<open>t\<close> and raises \<^verbatim>\<open>TimeoutException\<close> when the bound is exceeded.
  \<open>first_selected_option_text\<close> stands for \<^verbatim>\<open>select.first_selected_option.text\<close> and
  \<open>options_text\<close> for \<^verbatim>\<open>[opt.text for opt in select.options]\<close>. \<open>py_int\<close> is Python's
  builtin \<^verbatim>\<open>int\<close> on a \<^verbatim>\<open>str\<close>; \<open>None\<close> stands for \<^verbatim>\<open>ValueError\<close>.
\<close>

record 's webdriver =
  until_invisibility_of_element_located :: "int \<Rightarrow> locator \<Rightarrow> 's \<Rightarrow> (exn + unit) \<times> 's"
  until_element_to_be_clickable :: "int \<Rightarrow> locator \<Rightarrow> 's \<Rightarrow> (exn + element) \<times> 's"
  until_presence_of_element_located :: "int \<Rightarrow> locator \<Rightarrow> 's \<Rightarrow> (exn + element) \<times> 's"
  drv_find_element :: "locator \<Rightarrow> 's \<Rightarrow> (exn + element) \<times> 's"
  drv_execute_script :: "script \<Rightarrow> jsarg list \<Rightarrow> 's \<Rightarrow> (exn + unit) \<times> 's"
  el_is_enabled :: "element \<Rightarrow> 's \<Rightarrow> (exn + bool) \<times> 's"
  el_get_attribute :: "element \<Rightarrow> string \<Rightarrow> 's \<Rightarrow> (exn + string option) \<times> 's"
  el_clear :: "element \<Rightarrow> 's \<Rightarrow> (exn + unit) \<times> 's"
  el_send_keys :: "element \<Rightarrow> string \<Rightarrow> 's \<Rightarrow> (exn + unit) \<times> 's"
  el_click :: "element \<Rightarrow> 's \<Rightarrow> (exn + unit) \<times> 's"
  el_is_selected :: "element \<Rightarrow> 's \<Rightarrow> (exn + bool) \<times> 's"
  sel_init :: "element \<Rightarrow> 's \<Rightarrow> (exn + unit) \<times> 's"
  sel_select_by_visible_text :: "element \<Rightarrow> string \<Rightarrow> 's \<Rightarrow> (exn + unit) \<times> 's"
  sel_select_by_value :: "element \<Rightarrow> string \<Rightarrow> 's \<Rightarrow> (exn + unit) \<times> 's"
  sel_select_by_index :: "element \<Rightarrow> int \<Rightarrow> 's \<Rightarrow> (exn + unit) \<times> 's"
  sel_first_selected_option_text :: "element \<Rightarrow> 's \<Rightarrow> (exn + string) \<times> 's"
  sel_options_text :: "element \<Rightarrow> 's \<Rightarrow> (exn + string list) \<times> 's"
  py_int :: "string \<Rightarrow> int option"

subsection \<open>Runs\<close>

record 's run =
  session :: 's
  trace :: "(call \<times> outcome) list"
  logs :: "logline list"

definition start :: "'s \<Rightarrow> 's run" where
  "start s = \<lparr>session = s, trace = [], logs = []\<rparr>"

type_synonym ('s, 'a) act = "'s run \<Rightarrow> (exn + 'a) \<times> 's run"

definition returns :: "'a \<Rightarrow> ('s, 'a) act" where
  "returns x st = (Inr x, st)"

definition raise :: "exn \<Rightarrow> ('s, 'a) act" where
  "raise e st = (Inl e, st)"

definition andthen :: "('s, 'a) act \<Rightarrow> ('a \<Rightarrow> ('s, 'b) act) \<Rightarrow> ('s, 'b) act" where
  "andthen m f st = (case m st of (Inl e, st') \<Rightarrow> (Inl e, st') | (Inr x, st') \<Rightarrow> f x st')"

text \<open>\<^verbatim>\<open>try: m  except ... as e: h e\<close>: the handler runs in the state the body left.\<close>

definition try_except :: "('s, 'a) act \<Rightarrow> (exn \<Rightarrow> ('s, 'a) act) \<Rightarrow> ('s, 'a) act" where
  "try_except m h st = (case m st of (Inl e, st') \<Rightarrow> h e st' | (Inr x, st') \<Rightarrow> (Inr x, st'))"

definition logger :: "level \<Rightarrow> string \<Rightarrow> logarg list \<Rightarrow> ('s, unit) act" where
  "logger lv fmt args st = (Inr (), st\<lparr>logs := logs st @ [(lv, fmt, args)]\<rparr>)"

text \<open>One call into the driver, appended to the trace with its outcome.\<close>

definition invoke :: "call \<Rightarrow> ('a \<Rightarrow> val) \<Rightarrow> ('s \<Rightarrow> (exn + 'a) \<times> 's) \<Rightarrow> ('s, 'a) act" where
  "invoke c shw f st =
     (case f (session st) of
        (Inl e, s') \<Rightarrow> (Inl e, st\<lparr>session := s', trace := trace st @ [(c, Raised e)]\<rparr>)
      | (Inr x, s') \<Rightarrow> (Inr x, st\<lparr>session := s', trace := trace st @ [(c, Returned (shw x))]\<rparr>))"

text \<open>
  What a helper returns and what it does to the session depend on the session alone; the
  trace and the log of the state it is entered in are only extended. \<open>framed m\<close> says
  that running \<open>m\<close> in any state is running it in a fresh state on the same session and
  prefixing the trace and the log.
\<close>

definition replay :: "'s run \<Rightarrow> (exn + 'a) \<times> 's run \<Rightarrow> (exn + 'a) \<times> 's run" where
  "replay st res =
     (case res of (r, st1) \<Rightarrow> (r, st1\<lparr>trace := trace st @ trace st1, logs := logs st @ logs st1\<rparr>))"

definition framed :: "('s, 'a) act \<Rightarrow> bool" where
  "framed m = (\<forall>st. m st = replay st (m (start (session st))))"

definition wait_invisibility :: "'s webdriver \<Rightarrow> int \<Rightarrow> locator \<Rightarrow> ('s, unit) act" where
  "wait_invisibility d t l =
     invoke (Until_invisibility t l) (\<lambda>_. VNone) (until_invisibility_of_element_located d t l)"

definition wait_clickable :: "'s webdriver \<Rightarrow> int \<Rightarrow> locator \<Rightarrow> ('s, element) act" where
  "wait_clickable d t l = invoke (Until_clickable t l) VElem (until_element_to_be_clickable d t l)"

definition wait_presence :: "'s webdriver \<Rightarrow> int \<Rightarrow> locator \<Rightarrow> ('s, element) act" where
  "wait_presence d t l = invoke (Until_presence t l) VElem (until_presence_of_element_located d t l)"

definition find_element :: "'s webdriver \<Rightarrow> locator \<Rightarrow> ('s, element) act" where
  "find_element d l = invoke (Find_element l) VElem (drv_find_element d l)"

definition execute_script :: "'s webdriver \<Rightarrow> script \<Rightarrow> jsarg list \<Rightarrow> ('s, unit) act" where
  "execute_script d js args = invoke (Execute_script js args) (\<lambda>_. VNone) (drv_execute_script d js args)"

definition is_enabled :: "'s webdriver \<Rightarrow> element \<Rightarrow> ('s, bool) act" where
  "is_enabled d e = invoke (Is_enabled e) VBool (el_is_enabled d e)"

definition get_attribute :: "'s webdriver \<Rightarrow> element \<Rightarrow> string \<Rightarrow> ('s, string option) act" where
  "get_attribute d e a = invoke (Get_attribute e a) VAttr (el_get_attribute d e a)"

definition clear :: "'s webdriver \<Rightarrow> element \<Rightarrow> ('s, unit) act" where
  "clear d e = invoke (Clear e) (\<lambda>_. VNone) (el_clear d e)"

definition send_keys :: "'s webdriver \<Rightarrow> element \<Rightarrow> string \<Rightarrow> ('s, unit) act" where
  "send_keys d e t = invoke (Send_keys e t) (\<lambda>_. VNone) (el_send_keys d e t)"

definition click :: "'s webdriver \<Rightarrow> element \<Rightarrow> ('s, unit) act" where
  "click d e = invoke (Click e) (\<lambda>_. VNone) (el_click d e)"

definition is_selected :: "'s webdriver \<Rightarrow> element \<Rightarrow> ('s, bool) act" where
  "is_selected d e = invoke (Is_selected e) VBool (el_is_selected d e)"

definition Select :: "'s webdriver \<Rightarrow> element \<Rightarrow> ('s, element) act" where
  "Select d e = andthen (invoke (Select_init e) (\<lambda>_. VNone) (sel_init d e)) (\<lambda>_. returns e)"

definition select_by_visible_text :: "'s webdriver \<Rightarrow> element \<Rightarrow> string \<Rightarrow> ('s, unit) act" where
  "select_by_visible_text d e t =
     invoke (Select_by_visible_text e t) (\<lambda>_. VNone) (sel_select_by_visible_text d e t)"

definition select_by_value :: "'s webdriver \<Rightarrow> element \<Rightarrow> string \<Rightarrow> ('s, unit) act" where
  "select_by_value d e t = invoke (Select_by_value e t) (\<lambda>_. VNone) (sel_select_by_value d e t)"

definition select_by_index :: "'s webdriver \<Rightarrow> element \<Rightarrow> int \<Rightarrow> ('s, unit) act" where
  "select_by_index d e i = invoke (Select_by_index e i) (\<lambda>_. VNone) (sel_select_by_index d e i)"

definition first_selected_option_text :: "'s webdriver \<Rightarrow> element \<Rightarrow> ('s, string) act" where
  "first_selected_option_text d e =
     invoke (First_selected_option_text e) VStr (sel_first_selected_option_text d e)"

definition options_text :: "'s webdriver \<Rightarrow> element \<Rightarrow> ('s, string list) act" where
  "options_text d e = invoke (Options_text e) VStrs (sel_options_text d e)"

text \<open>\<^verbatim>\<open>int(option_text)\<close>: a pure conversion that raises \<^verbatim>\<open>ValueError\<close>.\<close>

definition int_of_str :: "'s webdriver \<Rightarrow> string \<Rightarrow> ('s, int) act" where
  "int_of_str d t = (case py_int d t of None \<Rightarrow> raise ValueError | Some i \<Rightarrow> returns i)"

text \<open>\<^verbatim>\<open>(By.CLASS_NAME, "dimmer-holder")\<close>; \<^verbatim>\<open>By.CLASS_NAME\<close> is the string \<^verbatim>\<open>"class name"\<close>.\<close>

definition overlay :: locator where
  "overlay = (''class name'', ''dimmer-holder'')"

subsection \<open>Log messages\<close>

text \<open>The f-strings handed to the logger, each under a name; the values interpolated
  into a message are recorded beside it.\<close>

definition msg_attempting_click :: string where
  "msg_attempting_click =
     ''Attempting to click element located by {locator}''"

definition msg_clicked_standard :: string where
  "msg_clicked_standard =
     ''Successfully clicked element {locator} using standard method.''"

definition msg_click_intercepted :: string where
  "msg_click_intercepted =
     ''Standard click was intercepted for {locator}. Attempting JavaScript click.''"

definition msg_clicked_javascript :: string where
  "msg_clicked_javascript =
     ''Successfully clicked element {locator} using JavaScript fallback.''"

definition msg_javascript_click_failed :: string where
  "msg_javascript_click_failed =
     ''JavaScript click also failed for {locator}: {e}''"

definition msg_timeout_element :: string where
  "msg_timeout_element =
     ''Timeout: Element {locator} was not found or clickable within {timeout} seconds.''"

definition msg_unexpected_clicking :: string where
  "msg_unexpected_clicking =
     ''An unexpected error occurred while clicking {locator}: {e}''"

definition msg_attempting_input :: string where
  "msg_attempting_input =
     ''Attempting to input text into element located by {locator}''"

definition msg_not_interactable :: string where
  "msg_not_interactable =
     ''Element {locator} is not interactable. Attempting JavaScript fallback.''"

definition msg_input_done :: string where
  "msg_input_done =
     ''Successfully input text into element {locator}''"

definition msg_unexpected_inputting :: string where
  "msg_unexpected_inputting =
     ''An unexpected error occurred while inputting text into {locator}: {e}''"

definition msg_attempting_final_fallback :: string where
  "msg_attempting_final_fallback =
     ''Attempting final JavaScript fallback to set value.''"

definition msg_input_done_fallback :: string where
  "msg_input_done_fallback =
     ''Successfully input text into element {locator} via final JS fallback.''"

definition msg_all_input_failed :: string where
  "msg_all_input_failed =
     ''All input methods failed for {locator}: {js_e}''"

definition msg_attempting_checkbox :: string where
  "msg_attempting_checkbox =
     ''Attempting to set checkbox {locator} to state: {desired_state}''"

definition msg_checkbox_clicking :: string where
  "msg_checkbox_clicking =
     ''Checkbox is not in desired state. Clicking to change.''"

definition msg_checkbox_click_failed :: string where
  "msg_checkbox_click_failed =
     ''Failed to click the checkbox {locator}.''"

definition msg_checkbox_already :: string where
  "msg_checkbox_already =
     ''Checkbox {locator} is already in the desired state.''"

definition msg_checkbox_success :: string where
  "msg_checkbox_success =
     ''SUCCESS: Checkbox {locator} is now in state: {final_state}''"

definition msg_checkbox_failure :: string where
  "msg_checkbox_failure =
     ''FAILURE: Checkbox {locator} is in state {final_state}, but expected {desired_state}.''"

definition msg_timeout_checkbox :: string where
  "msg_timeout_checkbox =
     ''Timeout: Checkbox {locator} was not found within {timeout} seconds.''"

definition msg_unexpected_checkbox :: string where
  "msg_unexpected_checkbox =
     ''An unexpected error occurred with checkbox {locator}: {e}''"

definition msg_attempting_select :: string where
  "msg_attempting_select =
     ''Attempting to select '{option_text}' from dropdown {locator}''"

definition msg_invalid_method :: string where
  "msg_invalid_method =
     ''Invalid selection method '{by}'. Use 'visible_text', 'value', or 'index'.''"

definition msg_selected :: string where
  "msg_selected =
     ''Successfully selected. Current value: '{selected_option}'' @ [CHR 0x27]"

definition msg_option_not_found :: string where
  "msg_option_not_found =
     ''Option '{option_text}' not found in dropdown {locator}.''"

definition msg_available_options :: string where
  "msg_available_options =
     ''Available options are: {all_options}''"

definition msg_timeout_dropdown :: string where
  "msg_timeout_dropdown =
     ''Timeout: Dropdown {locator} was not found within {timeout} seconds.''"

definition msg_unexpected_dropdown :: string where
  "msg_unexpected_dropdown =
     ''An unexpected error occurred with dropdown {locator}: {e}''"

subsection \<open>click_element\<close>

text \<open>The \<^verbatim>\<open>try\<close> block of \<open>click_element\<close> (the pause \<^verbatim>\<open>time.sleep(0.5)\<close> has no effect on
  the session and is left out).\<close>

definition click_element_try :: "'s webdriver \<Rightarrow> locator \<Rightarrow> int \<Rightarrow> ('s, bool) act" where
  "click_element_try d locator timeout =
     andthen (wait_invisibility d 10 overlay) (\<lambda>_.
     andthen (wait_clickable d timeout locator) (\<lambda>element.
     andthen (execute_script d ScrollIntoView [JElem element]) (\<lambda>_.
     andthen (click d element) (\<lambda>_.
     andthen (logger INFO msg_clicked_standard [ALoc locator]) (\<lambda>_.
     returns True)))))"

text \<open>The handler of \<^verbatim>\<open>except ElementClickInterceptedException\<close>; its inner
  \<^verbatim>\<open>except Exception as e\<close> lets what is not an \<^verbatim>\<open>Exception\<close> pass.\<close>

definition click_element_intercepted :: "'s webdriver \<Rightarrow> locator \<Rightarrow> ('s, bool) act" where
  "click_element_intercepted d locator =
     andthen (logger WARNING msg_click_intercepted [ALoc locator]) (\<lambda>_.
     try_except
       (andthen (find_element d locator) (\<lambda>element.
        andthen (execute_script d JsClick [JElem element]) (\<lambda>_.
        andthen (logger INFO msg_clicked_javascript [ALoc locator]) (\<lambda>_.
        returns True))))
       (\<lambda>e.
        if is_exception e then
          andthen (logger ERROR msg_javascript_click_failed [ALoc locator, AExn e]) (\<lambda>_.
          returns False)
        else raise e))"

definition click_element :: "'s webdriver \<Rightarrow> locator \<Rightarrow> int \<Rightarrow> ('s, bool) act" where
  "click_element d locator timeout =
     andthen (logger INFO msg_attempting_click [ALoc locator]) (\<lambda>_.
     try_except (click_element_try d locator timeout)
       (\<lambda>e.
        if e = ElementClickInterceptedException then click_element_intercepted d locator
        else if e = TimeoutException then
          andthen (logger ERROR msg_timeout_element [ALoc locator, AInt timeout]) (\<lambda>_.
          returns False)
        else if is_exception e then
          andthen (logger ERROR msg_unexpected_clicking [ALoc locator, AExn e]) (\<lambda>_.
          returns False)
        else raise e))"

subsection \<open>input_text\<close>

text \<open>Python's truth value of what \<^verbatim>\<open>get_attribute\<close> returns (\<^verbatim>\<open>None\<close> or a \<^verbatim>\<open>str\<close>).\<close>

definition truthy :: "string option \<Rightarrow> bool" where
  "truthy a = (case a of None \<Rightarrow> False | Some v \<Rightarrow> v \<noteq> [])"

text \<open>The \<^verbatim>\<open>try\<close> block of \<open>input_text\<close>, steps 1 to 6. The condition
  \<^verbatim>\<open>not element.is_enabled() or element.get_attribute("readonly")\<close> reads the attribute only
  when the element is enabled.\<close>

definition input_text_try ::
  "'s webdriver \<Rightarrow> locator \<Rightarrow> string \<Rightarrow> int \<Rightarrow> bool \<Rightarrow> ('s, bool) act" where
  "input_text_try d locator text timeout clear_first =
     andthen (wait_invisibility d 10 overlay) (\<lambda>_.
     andthen (wait_clickable d timeout locator) (\<lambda>element.
     andthen (execute_script d ScrollIntoView [JElem element]) (\<lambda>_.
     andthen (is_enabled d element) (\<lambda>enabled.
     andthen (if \<not> enabled then returns True
              else andthen (get_attribute d element ''readonly'') (\<lambda>a. returns (truthy a)))
       (\<lambda>not_interactable.
     andthen
       (if not_interactable then
          andthen (logger WARNING msg_not_interactable [ALoc locator]) (\<lambda>_.
          andthen (execute_script d SetReadOnlyFalse [JElem element]) (\<lambda>_.
          andthen (execute_script d SetDisabledFalse [JElem element]) (\<lambda>_.
          execute_script d SetValue [JElem element, JStr text])))
        else
          andthen (if clear_first then clear d element else returns ()) (\<lambda>_.
          send_keys d element text)) (\<lambda>_.
     andthen (execute_script d DispatchInput [JElem element]) (\<lambda>_.
     andthen (execute_script d DispatchChange [JElem element]) (\<lambda>_.
     andthen (logger INFO msg_input_done [ALoc locator]) (\<lambda>_.
     returns True)))))))))"

text \<open>The handler of \<^verbatim>\<open>except Exception as e\<close>: the final JavaScript fallback.\<close>

definition input_text_fallback ::
  "'s webdriver \<Rightarrow> locator \<Rightarrow> string \<Rightarrow> exn \<Rightarrow> ('s, bool) act" where
  "input_text_fallback d locator text e =
     andthen (logger ERROR msg_unexpected_inputting [ALoc locator, AExn e]) (\<lambda>_.
     try_except
       (andthen (logger INFO msg_attempting_final_fallback []) (\<lambda>_.
        andthen (find_element d locator) (\<lambda>element.
        andthen (execute_script d SetValue [JElem element, JStr text]) (\<lambda>_.
        andthen (execute_script d DispatchInput [JElem element]) (\<lambda>_.
        andthen (logger INFO msg_input_done_fallback [ALoc locator]) (\<lambda>_.
        returns True))))))
       (\<lambda>js_e.
        if is_exception js_e then
          andthen (logger ERROR msg_all_input_failed [ALoc locator, AExn js_e]) (\<lambda>_.
          returns False)
        else raise js_e))"

definition input_text ::
  "'s webdriver \<Rightarrow> locator \<Rightarrow> string \<Rightarrow> int \<Rightarrow> bool \<Rightarrow> ('s, bool) act" where
  "input_text d locator text timeout clear_first =
     andthen (logger INFO msg_attempting_input [ALoc locator]) (\<lambda>_.
     try_except (input_text_try d locator text timeout clear_first)
       (\<lambda>e.
        if e = TimeoutException then
          andthen (logger ERROR msg_timeout_element [ALoc locator, AInt timeout]) (\<lambda>_.
          returns False)
        else if is_exception e then input_text_fallback d locator text e
        else raise e))"

subsection \<open>click_checkbox\<close>

text \<open>The final verification: the element is located again and its state read.\<close>

definition checkbox_verification :: "'s webdriver \<Rightarrow> locator \<Rightarrow> bool \<Rightarrow> ('s, bool) act" where
  "checkbox_verification d locator desired_state =
     andthen (find_element d locator) (\<lambda>element.
     andthen (is_selected d element) (\<lambda>final_state.
     if final_state = desired_state then
       andthen (logger INFO msg_checkbox_success [ALoc locator, ABool final_state]) (\<lambda>_.
       returns True)
     else
       andthen (logger ERROR msg_checkbox_failure [ALoc locator, ABool final_state, ABool desired_state]) (\<lambda>_.
       returns False)))"

text \<open>The \<^verbatim>\<open>try\<close> block of \<open>click_checkbox\<close>. The \<^verbatim>\<open>if\<close> statement yields \<open>Some False\<close> where
  the source returns \<^verbatim>\<open>False\<close> from inside it, and \<open>None\<close> where control falls through to
  the final verification.\<close>

definition click_checkbox_try ::
  "'s webdriver \<Rightarrow> locator \<Rightarrow> bool \<Rightarrow> int \<Rightarrow> ('s, bool) act" where
  "click_checkbox_try d locator desired_state timeout =
     andthen (wait_presence d timeout locator) (\<lambda>element.
     andthen (execute_script d ScrollIntoView [JElem element]) (\<lambda>_.
     andthen (is_selected d element) (\<lambda>current.
     andthen
       (if current \<noteq> desired_state then
          andthen (logger INFO msg_checkbox_clicking []) (\<lambda>_.
          andthen (click_element d locator timeout) (\<lambda>clicked.
          if \<not> clicked then
            andthen (logger ERROR msg_checkbox_click_failed [ALoc locator]) (\<lambda>_.
            returns (Some False))
          else returns None))
        else
          andthen (logger INFO msg_checkbox_already [ALoc locator]) (\<lambda>_.
          returns None)) (\<lambda>returned.
     case returned of
       Some b \<Rightarrow> returns b
     | None \<Rightarrow> checkbox_verification d locator desired_state))))"

definition click_checkbox ::
  "'s webdriver \<Rightarrow> locator \<Rightarrow> bool \<Rightarrow> int \<Rightarrow> ('s, bool) act" where
  "click_checkbox d locator desired_state timeout =
     andthen (logger INFO msg_attempting_checkbox [ALoc locator, ABool desired_state]) (\<lambda>_.
     try_except (click_checkbox_try d locator desired_state timeout)
       (\<lambda>e.
        if e = TimeoutException then
          andthen (logger ERROR msg_timeout_checkbox [ALoc locator, AInt timeout]) (\<lambda>_.
          returns False)
        else if is_exception e then
          andthen (logger ERROR msg_unexpected_checkbox [ALoc locator, AExn e]) (\<lambda>_.
          returns False)
        else raise e))"

subsection \<open>select_dropdown_option\<close>

text \<open>\<^verbatim>\<open>str.strip()\<close> removes the characters for which \<^verbatim>\<open>str.isspace\<close> holds. A \<^typ>\<open>char\<close>
  is a code point below 256; there these are 9 to 13, 28 to 32, 133 (next line) and 160
  (no-break space).\<close>

definition py_isspace :: "char \<Rightarrow> bool" where
  "py_isspace c =
     (let n = (of_char c :: nat) in
        (9 \<le> n \<and> n \<le> 13) \<or> (28 \<le> n \<and> n \<le> 32) \<or> n = 133 \<or> n = 160)"

definition py_strip :: "string \<Rightarrow> string" where
  "py_strip s = rev (dropWhile py_isspace (rev (dropWhile py_isspace s)))"

text \<open>The \<^verbatim>\<open>try\<close> block of \<open>select_dropdown_option\<close>. The \<^verbatim>\<open>if/elif/else\<close> chain yields
  \<open>Some False\<close> where the source returns \<^verbatim>\<open>False\<close> from inside it (unknown method), and
  \<open>None\<close> where control falls through to the read-back.\<close>

definition select_dropdown_option_try ::
  "'s webdriver \<Rightarrow> locator \<Rightarrow> string \<Rightarrow> string \<Rightarrow> int \<Rightarrow> ('s, bool) act" where
  "select_dropdown_option_try d locator option_text by timeout =
     andthen (wait_presence d timeout locator) (\<lambda>dropdown_element.
     andthen (execute_script d ScrollIntoView [JElem dropdown_element]) (\<lambda>_.
     andthen (Select d dropdown_element) (\<lambda>select.
     andthen
       (if by = ''visible_text'' then
          andthen (select_by_visible_text d select option_text) (\<lambda>_. returns None)
        else if by = ''value'' then
          andthen (select_by_value d select option_text) (\<lambda>_. returns None)
        else if by = ''index'' then
          andthen (int_of_str d option_text) (\<lambda>i.
          andthen (select_by_index d select i) (\<lambda>_. returns None))
        else
          andthen (logger ERROR msg_invalid_method [AStr by]) (\<lambda>_.
          returns (Some False))) (\<lambda>returned.
     case returned of
       Some b \<Rightarrow> returns b
     | None \<Rightarrow>
         andthen (first_selected_option_text d select) (\<lambda>t.
         andthen (logger INFO msg_selected [AStr (py_strip t)]) (\<lambda>_.
         returns True))))))"

text \<open>The handler of \<^verbatim>\<open>except NoSuchElementException\<close>; its inner bare \<^verbatim>\<open>except: pass\<close>
  swallows whatever the listing of the options raises.\<close>

definition select_dropdown_option_not_found ::
  "'s webdriver \<Rightarrow> locator \<Rightarrow> string \<Rightarrow> ('s, bool) act" where
  "select_dropdown_option_not_found d locator option_text =
     andthen (logger ERROR msg_option_not_found [AStr option_text, ALoc locator]) (\<lambda>_.
     andthen
       (try_except
          (andthen (find_element d locator) (\<lambda>element.
           andthen (Select d element) (\<lambda>select.
           andthen (options_text d select) (\<lambda>all_options.
           logger INFO msg_available_options [AStrs all_options]))))
          (\<lambda>_. returns ())) (\<lambda>_.
     returns False))"

definition select_dropdown_option ::
  "'s webdriver \<Rightarrow> locator \<Rightarrow> string \<Rightarrow> string \<Rightarrow> int \<Rightarrow> ('s, bool) act" where
  "select_dropdown_option d locator option_text by timeout =
     andthen (logger INFO msg_attempting_select [AStr option_text, ALoc locator]) (\<lambda>_.
     try_except (select_dropdown_option_try d locator option_text by timeout)
       (\<lambda>e.
        if e = NoSuchElementException then select_dropdown_option_not_found d locator option_text
        else if e = TimeoutException then
          andthen (logger ERROR msg_timeout_dropdown [ALoc locator, AInt timeout]) (\<lambda>_.
          returns False)
        else if is_exception e then
          andthen (logger ERROR msg_unexpected_dropdown [ALoc locator, AExn e]) (\<lambda>_.
          returns False)
        else raise e))"

section \<open>A reference browser\<close>

text \<open>
  Claims about what ends up in the page need a page. The reference browser below follows
  the documented behaviour of Selenium's Python bindings and of the WebDriver protocol
  for the calls the module makes, on a page that does not change by itself:
  \<^item> \<^verbatim>\<open>invisibility_of_element_located\<close> holds when the element is absent or not displayed;
  \<^item> \<^verbatim>\<open>element_to_be_clickable\<close> holds when the element is found, displayed and enabled;
  \<^item> \<^verbatim>\<open>presence_of_element_located\<close> holds when the element is found;
  \<^item> a wait whose condition does not hold raises \<^verbatim>\<open>TimeoutException\<close>;
  \<^item> \<^verbatim>\<open>find_element\<close> raises \<^verbatim>\<open>NoSuchElementException\<close> when nothing matches;
  \<^item> \<^verbatim>\<open>send_keys\<close> types at the end of the field's content; \<^verbatim>\<open>clear\<close> empties it;
  \<^item> \<^verbatim>\<open>click\<close> raises \<^verbatim>\<open>ElementClickInterceptedException\<close> when another element covers
    the click point; a click that is delivered flips a checkbox;
  \<^item> a handle whose node is gone raises \<^verbatim>\<open>StaleElementReferenceException\<close>.
  In addition every call first consults a fault schedule, which can disturb it without
  touching the page: the head \<open>None\<close> (or an empty schedule) lets the call run; the head
  \<open>Some e\<close> makes a call other than a wait raise \<open>e\<close>, and makes the condition of a wait
  raise \<open>e\<close>, which the wait may catch (see below).
\<close>

datatype kind = TextField | Checkbox | SelectBox | Block

record node =
  n_kind :: kind
  n_displayed :: bool
  n_disabled :: bool
  n_readOnly :: bool
  n_obscured :: bool
  n_value :: string
  n_checked :: bool
  n_clicks :: nat
  n_events :: "string list"
  n_options :: "(string \<times> string) list"
  n_selected :: "nat option"

record browser =
  page :: "locator \<Rightarrow> node option"
  faults :: "exn option list"

definition attempt :: "(browser \<Rightarrow> (exn + 'a) \<times> browser) \<Rightarrow> browser \<Rightarrow> (exn + 'a) \<times> browser" where
  "attempt f b =
     (case faults b of
        [] \<Rightarrow> f b
      | None # fs \<Rightarrow> f (b\<lparr>faults := fs\<rparr>)
      | Some e # fs \<Rightarrow> (Inl e, b\<lparr>faults := fs\<rparr>))"

text \<open>
  A wait polls its condition and raises \<^verbatim>\<open>TimeoutException\<close> when the time is over. A fault
  scheduled for a wait is what its condition raises at every poll.
  \<^verbatim>\<open>invisibility_of_element_located\<close> catches \<^verbatim>\<open>NoSuchElementException\<close> and
  \<^verbatim>\<open>StaleElementReferenceException\<close> and then holds, so that the wait returns.
  \<^verbatim>\<open>element_to_be_clickable\<close> and \<^verbatim>\<open>presence_of_element_located\<close> catch nothing themselves;
  \<^verbatim>\<open>WebDriverWait.until\<close> ignores \<^verbatim>\<open>NoSuchElementException\<close> and polls again, so that the
  wait times out, and lets every other exception pass.
\<close>

definition attempt_invisibility ::
  "(browser \<Rightarrow> (exn + unit) \<times> browser) \<Rightarrow> browser \<Rightarrow> (exn + unit) \<times> browser" where
  "attempt_invisibility f b =
     (case faults b of
        [] \<Rightarrow> f b
      | None # fs \<Rightarrow> f (b\<lparr>faults := fs\<rparr>)
      | Some e # fs \<Rightarrow>
          if e = NoSuchElementException \<or> e = StaleElementReferenceException
          then (Inr (), b\<lparr>faults := fs\<rparr>)
          else (Inl e, b\<lparr>faults := fs\<rparr>))"

definition attempt_until ::
  "(browser \<Rightarrow> (exn + 'a) \<times> browser) \<Rightarrow> browser \<Rightarrow> (exn + 'a) \<times> browser" where
  "attempt_until f b =
     (case faults b of
        [] \<Rightarrow> f b
      | None # fs \<Rightarrow> f (b\<lparr>faults := fs\<rparr>)
      | Some e # fs \<Rightarrow>
          if e = NoSuchElementException then (Inl TimeoutException, b\<lparr>faults := fs\<rparr>)
          else (Inl e, b\<lparr>faults := fs\<rparr>))"

definition on_node :: "element \<Rightarrow> (node \<Rightarrow> (exn + 'a) \<times> node) \<Rightarrow> browser \<Rightarrow> (exn + 'a) \<times> browser" where
  "on_node el f b =
     (case el of WebElement l \<Rightarrow>
        (case page b l of
           None \<Rightarrow> (Inl StaleElementReferenceException, b)
         | Some n \<Rightarrow> (case f n of (r, n') \<Rightarrow> (r, b\<lparr>page := (page b)(l := Some n')\<rparr>))))"

definition b_until_invisibility :: "int \<Rightarrow> locator \<Rightarrow> browser \<Rightarrow> (exn + unit) \<times> browser" where
  "b_until_invisibility t l b =
     (case page b l of
        None \<Rightarrow> (Inr (), b)
      | Some n \<Rightarrow> if n_displayed n then (Inl TimeoutException, b) else (Inr (), b))"

definition b_until_clickable :: "int \<Rightarrow> locator \<Rightarrow> browser \<Rightarrow> (exn + element) \<times> browser" where
  "b_until_clickable t l b =
     (case page b l of
        None \<Rightarrow> (Inl TimeoutException, b)
      | Some n \<Rightarrow>
          if n_displayed n \<and> \<not> n_disabled n then (Inr (WebElement l), b)
          else (Inl TimeoutException, b))"

definition b_until_presence :: "int \<Rightarrow> locator \<Rightarrow> browser \<Rightarrow> (exn + element) \<times> browser" where
  "b_until_presence t l b =
     (case page b l of
        None \<Rightarrow> (Inl TimeoutException, b)
      | Some n \<Rightarrow> (Inr (WebElement l), b))"

definition b_find_element :: "locator \<Rightarrow> browser \<Rightarrow> (exn + element) \<times> browser" where
  "b_find_element l b =
     (case page b l of
        None \<Rightarrow> (Inl NoSuchElementException, b)
      | Some n \<Rightarrow> (Inr (WebElement l), b))"

text \<open>A click delivered to a node: counted, and a checkbox flips.\<close>

definition deliver_click :: "node \<Rightarrow> node" where
  "deliver_click n =
     n\<lparr>n_clicks := Suc (n_clicks n),
       n_checked := (if n_kind n = Checkbox then \<not> n_checked n else n_checked n)\<rparr>"

text \<open>The snippets; \<^verbatim>\<open>click()\<close> on a disabled control does nothing. A snippet called with
  other arguments than the module passes fails with a JavaScript error.\<close>

fun b_execute_script :: "script \<Rightarrow> jsarg list \<Rightarrow> browser \<Rightarrow> (exn + unit) \<times> browser" where
  "b_execute_script ScrollIntoView [JElem e] b = on_node e (\<lambda>n. (Inr (), n)) b"
| "b_execute_script SetReadOnlyFalse [JElem e] b = on_node e (\<lambda>n. (Inr (), n\<lparr>n_readOnly := False\<rparr>)) b"
| "b_execute_script SetDisabledFalse [JElem e] b = on_node e (\<lambda>n. (Inr (), n\<lparr>n_disabled := False\<rparr>)) b"
| "b_execute_script SetValue [JElem e, JStr t] b = on_node e (\<lambda>n. (Inr (), n\<lparr>n_value := t\<rparr>)) b"
| "b_execute_script DispatchInput [JElem e] b =
     on_node e (\<lambda>n. (Inr (), n\<lparr>n_events := n_events n @ [''input'']\<rparr>)) b"
| "b_execute_script DispatchChange [JElem e] b =
     on_node e (\<lambda>n. (Inr (), n\<lparr>n_events := n_events n @ [''change'']\<rparr>)) b"
| "b_execute_script JsClick [JElem e] b =
     on_node e (\<lambda>n. (Inr (), if n_disabled n then n else deliver_click n)) b"
| "b_execute_script _ _ b = (Inl OtherException, b)"

definition b_is_enabled :: "element \<Rightarrow> browser \<Rightarrow> (exn + bool) \<times> browser" where
  "b_is_enabled e = on_node e (\<lambda>n. (Inr (\<not> n_disabled n), n))"

text \<open>Only the \<^verbatim>\<open>readonly\<close> attribute is modelled; it reads \<^verbatim>\<open>"true"\<close> when set.\<close>

definition b_get_attribute :: "element \<Rightarrow> string \<Rightarrow> browser \<Rightarrow> (exn + string option) \<times> browser" where
  "b_get_attribute e a =
     on_node e (\<lambda>n. (Inr (if a = ''readonly'' \<and> n_readOnly n then Some ''true'' else None), n))"

definition b_clear :: "element \<Rightarrow> browser \<Rightarrow> (exn + unit) \<times> browser" where
  "b_clear e =
     on_node e (\<lambda>n.
       if \<not> n_displayed n then (Inl ElementNotInteractableException, n)
       else if n_disabled n \<or> n_readOnly n then (Inl OtherException, n)
       else (Inr (), n\<lparr>n_value := []\<rparr>))"

definition b_send_keys :: "element \<Rightarrow> string \<Rightarrow> browser \<Rightarrow> (exn + unit) \<times> browser" where
  "b_send_keys e t =
     on_node e (\<lambda>n.
       if \<not> n_displayed n \<or> n_disabled n then (Inl ElementNotInteractableException, n)
       else if n_readOnly n then (Inr (), n)
       else (Inr (), n\<lparr>n_value := n_value n @ t\<rparr>))"

definition b_click :: "element \<Rightarrow> browser \<Rightarrow> (exn + unit) \<times> browser" where
  "b_click e =
     on_node e (\<lambda>n.
       if \<not> n_displayed n then (Inl ElementNotInteractableException, n)
       else if n_obscured n then (Inl ElementClickInterceptedException, n)
       else if n_disabled n then (Inr (), n)
       else (Inr (), deliver_click n))"

definition b_is_selected :: "element \<Rightarrow> browser \<Rightarrow> (exn + bool) \<times> browser" where
  "b_is_selected e = on_node e (\<lambda>n. (Inr (n_checked n), n))"

text \<open>\<^verbatim>\<open>Select(element)\<close> rejects an element that is not a \<^verbatim>\<open>select\<close>.\<close>

definition b_sel_init :: "element \<Rightarrow> browser \<Rightarrow> (exn + unit) \<times> browser" where
  "b_sel_init e =
     on_node e (\<lambda>n. if n_kind n = SelectBox then (Inr (), n) else (Inl OtherException, n))"

fun first_index :: "('a \<Rightarrow> bool) \<Rightarrow> 'a list \<Rightarrow> nat option" where
  "first_index P [] = None"
| "first_index P (x # xs) =
     (if P x then Some 0 else (case first_index P xs of None \<Rightarrow> None | Some i \<Rightarrow> Some (Suc i)))"

definition select_where :: "(string \<times> string \<Rightarrow> bool) \<Rightarrow> node \<Rightarrow> (exn + unit) \<times> node" where
  "select_where P n =
     (case first_index P (n_options n) of
        None \<Rightarrow> (Inl NoSuchElementException, n)
      | Some i \<Rightarrow> (Inr (), n\<lparr>n_selected := Some i\<rparr>))"

definition b_select_by_visible_text :: "element \<Rightarrow> string \<Rightarrow> browser \<Rightarrow> (exn + unit) \<times> browser" where
  "b_select_by_visible_text e t = on_node e (select_where (\<lambda>(v, label). label = t))"

definition b_select_by_value :: "element \<Rightarrow> string \<Rightarrow> browser \<Rightarrow> (exn + unit) \<times> browser" where
  "b_select_by_value e t = on_node e (select_where (\<lambda>(v, label). v = t))"

definition b_select_by_index :: "element \<Rightarrow> int \<Rightarrow> browser \<Rightarrow> (exn + unit) \<times> browser" where
  "b_select_by_index e i =
     on_node e (\<lambda>n.
       if 0 \<le> i \<and> nat i < length (n_options n) then (Inr (), n\<lparr>n_selected := Some (nat i)\<rparr>)
       else (Inl NoSuchElementException, n))"

definition b_first_selected_option_text :: "element \<Rightarrow> browser \<Rightarrow> (exn + string) \<times> browser" where
  "b_first_selected_option_text e =
     on_node e (\<lambda>n.
       case n_selected n of
         None \<Rightarrow> (Inl NoSuchElementException, n)
       | Some i \<Rightarrow>
           if i < length (n_options n) then (Inr (snd (n_options n ! i)), n)
           else (Inl NoSuchElementException, n))"

definition b_options_text :: "element \<Rightarrow> browser \<Rightarrow> (exn + string list) \<times> browser" where
  "b_options_text e = on_node e (\<lambda>n. (Inr (map snd (n_options n)), n))"

text \<open>\<^verbatim>\<open>int(s)\<close> for decimal literals: surrounding whitespace, an optional sign, digits with
  single underscores between them. The whitespace \<^verbatim>\<open>int\<close> skips is not that of
  \<^verbatim>\<open>str.strip()\<close>: it replaces the non-ASCII space characters (133 and 160) by a blank and then
  skips the characters of C's \<^verbatim>\<open>isspace\<close>, 9 to 13 and 32; the separators 28 to 31 are not
  skipped.\<close>

definition int_isspace :: "char \<Rightarrow> bool" where
  "int_isspace c =
     (let n = (of_char c :: nat) in (9 \<le> n \<and> n \<le> 13) \<or> n = 32 \<or> n = 133 \<or> n = 160)"

definition is_digit :: "char \<Rightarrow> bool" where
  "is_digit c = (let n = (of_char c :: nat) in 48 \<le> n \<and> n \<le> 57)"

fun digits :: "string \<Rightarrow> bool \<Rightarrow> nat \<Rightarrow> nat option" where
  "digits [] after_digit acc = (if after_digit then Some acc else None)"
| "digits (c # cs) after_digit acc =
     (if is_digit c then digits cs True (10 * acc + (of_char c - 48))
      else if c = CHR ''_'' \<and> after_digit then digits cs False acc
      else None)"

definition decimal :: "string \<Rightarrow> int option" where
  "decimal s =
     (case rev (dropWhile int_isspace (rev (dropWhile int_isspace s))) of
        [] \<Rightarrow> None
      | c # cs \<Rightarrow>
          if c = CHR ''-'' then map_option (\<lambda>n. - int n) (digits cs False 0)
          else if c = CHR ''+'' then map_option int (digits cs False 0)
          else map_option int (digits (c # cs) False 0))"

definition selenium :: "browser webdriver" where
  "selenium =
     \<lparr>until_invisibility_of_element_located = (\<lambda>t l. attempt_invisibility (b_until_invisibility t l)),
      until_element_to_be_clickable = (\<lambda>t l. attempt_until (b_until_clickable t l)),
      until_presence_of_element_located = (\<lambda>t l. attempt_until (b_until_presence t l)),
      drv_find_element = (\<lambda>l. attempt (b_find_element l)),
      drv_execute_script = (\<lambda>js args. attempt (b_execute_script js args)),
      el_is_enabled = (\<lambda>e. attempt (b_is_enabled e)),
      el_get_attribute = (\<lambda>e a. attempt (b_get_attribute e a)),
      el_clear = (\<lambda>e. attempt (b_clear e)),
      el_send_keys = (\<lambda>e t. attempt (b_send_keys e t)),
      el_click = (\<lambda>e. attempt (b_click e)),
      el_is_selected = (\<lambda>e. attempt (b_is_selected e)),
      sel_init = (\<lambda>e. attempt (b_sel_init e)),
      sel_select_by_visible_text = (\<lambda>e t. attempt (b_select_by_visible_text e t)),
      sel_select_by_value = (\<lambda>e t. attempt (b_select_by_value e t)),
      sel_select_by_index = (\<lambda>e i. attempt (b_select_by_index e i)),
      sel_first_selected_option_text = (\<lambda>e. attempt (b_first_selected_option_text e)),
      sel_options_text = (\<lambda>e. attempt (b_options_text e)),
      py_int = decimal\<rparr>"

text \<open>Sample pages.\<close>

definition blank :: node where
  "blank =
     \<lparr>n_kind = Block, n_displayed = True, n_disabled = False, n_readOnly = False,
      n_obscured = False, n_value = [], n_checked = False, n_clicks = 0, n_events = [],
      n_options = [], n_selected = None\<rparr>"

definition on_page :: "(locator \<times> node) list \<Rightarrow> exn option list \<Rightarrow> browser" where
  "on_page nodes fs = \<lparr>page = map_of nodes, faults = fs\<rparr>"

definition email :: locator where
  "email = (''id'', ''email'')"

definition agree :: locator where
  "agree = (''id'', ''agree'')"

definition country :: locator where
  "country = (''id'', ''country'')"

text \<open>A page on which the loading overlay is showing over an ordinary text field.\<close>

definition dimmed_page :: browser where
  "dimmed_page = on_page [(overlay, blank), (email, blank\<lparr>n_kind := TextField\<rparr>)] []"

text \<open>A page whose text field is present but not displayed.\<close>

definition hidden_field_page :: browser where
  "hidden_field_page = on_page [(email, blank\<lparr>n_kind := TextField, n_displayed := False\<rparr>)] []"

text \<open>A page with an ordinary text field, on a driver with a given fault schedule.\<close>

definition flaky_page :: "exn option list \<Rightarrow> browser" where
  "flaky_page fs = on_page [(email, blank\<lparr>n_kind := TextField\<rparr>)] fs"

text \<open>The same text field on a driver whose first call is interrupted from the keyboard.\<close>

definition interrupted_page :: browser where
  "interrupted_page = on_page [(email, blank\<lparr>n_kind := TextField\<rparr>)] [Some KeyboardInterrupt]"





text \<open>An unchecked checkbox, a hidden one, a control that is displayed and enabled but is
  no checkbox (a click leaves its state as it is), and a checked checkbox on a driver
  with a given fault schedule.\<close>

definition inert_control_page :: browser where
  "inert_control_page = on_page [(agree, blank)] []"


definition unchecked_page :: browser where
  "unchecked_page = on_page [(agree, blank\<lparr>n_kind := Checkbox\<rparr>)] []"

definition hidden_checkbox_page :: browser where
  "hidden_checkbox_page = on_page [(agree, blank\<lparr>n_kind := Checkbox, n_displayed := False\<rparr>)] []"

definition checked_page :: "exn option list \<Rightarrow> browser" where
  "checked_page fs = on_page [(agree, blank\<lparr>n_kind := Checkbox, n_checked := True\<rparr>)] fs"

text \<open>The trace entries of a click, standard or forced.\<close>

fun click_attempt :: "call \<times> outcome \<Rightarrow> bool" where
  "click_attempt (Click e, out) = True"
| "click_attempt (Execute_script JsClick args, out) = True"
| "click_attempt _ = False"

text \<open>A dropdown offering Germany and Spain, Germany selected, on a driver with a given
  fault schedule.\<close>

definition countries_page :: "exn option list \<Rightarrow> browser" where
  "countries_page fs =
     on_page [(country, blank\<lparr>n_kind := SelectBox,
                n_options := [(''de'', ''Germany''), (''es'', ''Spain'')],
                n_selected := Some 0\<rparr>)] fs"

text \<open>Text fields: one already holding a value, a disabled one and a read-only one.\<close>

definition prefilled_page :: browser where
  "prefilled_page = on_page [(email, blank\<lparr>n_kind := TextField, n_value := ''old''\<rparr>)] []"

definition disabled_field_page :: browser where
  "disabled_field_page = on_page [(email, blank\<lparr>n_kind := TextField, n_disabled := True\<rparr>)] []"

definition readonly_field_page :: browser where
  "readonly_field_page = on_page [(email, blank\<lparr>n_kind := TextField, n_readOnly := True\<rparr>)] []"

section \<open>Reasoning about runs\<close>

lemmas monad_defs = andthen_def try_except_def returns_def raise_def logger_def invoke_def

lemmas call_defs = wait_invisibility_def wait_clickable_def wait_presence_def find_element_def
  execute_script_def is_enabled_def get_attribute_def clear_def send_keys_def click_def
  is_selected_def Select_def select_by_visible_text_def select_by_value_def select_by_index_def
  first_selected_option_text_def options_text_def int_of_str_def

subsection \<open>Trace and log are outputs\<close>

lemma framedD: "framed m \<Longrightarrow> m st = replay st (m (start (session st)))"
  unfolding framed_def by (erule allE)

lemma framedI: "(\<And>s tr lg. m \<lparr>session = s, trace = tr, logs = lg\<rparr> =
    replay \<lparr>session = s, trace = tr, logs = lg\<rparr> (m (start s))) \<Longrightarrow> framed m"
  unfolding framed_def
proof
  fix st :: "'a run"
  assume h: "\<And>s tr lg. m \<lparr>session = s, trace = tr, logs = lg\<rparr> =
    replay \<lparr>session = s, trace = tr, logs = lg\<rparr> (m (start s))"
  show "m st = replay st (m (start (session st)))"
    using h [of "session st" "trace st" "logs st"] by (cases st) simp
qed

lemma framed_returns: "framed (returns x)"
  by (rule framedI) (simp add: replay_def returns_def start_def)

lemma framed_raise: "framed (raise e)"
  by (rule framedI) (simp add: replay_def raise_def start_def)

lemma framed_logger: "framed (logger lv fmt args)"
  by (rule framedI) (simp add: replay_def logger_def start_def)

lemma framed_invoke: "framed (invoke c shw f)"
proof (rule framedI)
  fix s :: 'a and tr lg
  show "invoke c shw f \<lparr>session = s, trace = tr, logs = lg\<rparr> =
    replay \<lparr>session = s, trace = tr, logs = lg\<rparr> (invoke c shw f (start s))"
    by (cases "f s"; cases "fst (f s)") (simp_all add: replay_def invoke_def start_def)
qed

lemma replay_replay:
  fixes sta stb stc :: "'s run"
  shows "trace stc = trace sta @ trace stb \<Longrightarrow> logs stc = logs sta @ logs stb \<Longrightarrow>
    replay stc res = replay sta (replay stb res)"
  by (cases res) (simp add: replay_def)

lemma framed_andthen:
  assumes m: "framed m" and f: "\<And>x. framed (f x)"
  shows "framed (andthen m f)"
  unfolding framed_def
proof
  fix st :: "'a run"
  obtain r st1 where run: "m (start (session st)) = (r, st1)" by (cases "m (start (session st))")
  let ?st' = "st1\<lparr>trace := trace st @ trace st1, logs := logs st @ logs st1\<rparr>"
  have mst: "m st = (r, ?st')" using framedD [OF m, of st] run by (simp add: replay_def)
  show "andthen m f st = replay st (andthen m f (start (session st)))"
  proof (cases r)
    case (Inl e)
    with run mst show ?thesis by (simp add: andthen_def replay_def)
  next
    case (Inr x)
    have "f x ?st' = replay ?st' (f x (start (session st1)))"
      using framedD [OF f, of x ?st'] by simp
    also have "\<dots> = replay st (replay st1 (f x (start (session st1))))"
      by (rule replay_replay) simp_all
    also have "replay st1 (f x (start (session st1))) = f x st1" by (rule framedD [OF f, symmetric])
    finally show ?thesis using Inr run mst by (simp add: andthen_def)
  qed
qed

lemma framed_try_except:
  assumes m: "framed m" and h: "\<And>e. framed (h e)"
  shows "framed (try_except m h)"
  unfolding framed_def
proof
  fix st :: "'a run"
  obtain r st1 where run: "m (start (session st)) = (r, st1)" by (cases "m (start (session st))")
  let ?st' = "st1\<lparr>trace := trace st @ trace st1, logs := logs st @ logs st1\<rparr>"
  have mst: "m st = (r, ?st')" using framedD [OF m, of st] run by (simp add: replay_def)
  show "try_except m h st = replay st (try_except m h (start (session st)))"
  proof (cases r)
    case (Inr x)
    with run mst show ?thesis by (simp add: try_except_def replay_def)
  next
    case (Inl e)
    have "h e ?st' = replay ?st' (h e (start (session st1)))"
      using framedD [OF h, of e ?st'] by simp
    also have "\<dots> = replay st (replay st1 (h e (start (session st1))))"
      by (rule replay_replay) simp_all
    also have "replay st1 (h e (start (session st1))) = h e st1" by (rule framedD [OF h, symmetric])
    finally show ?thesis using Inl run mst by (simp add: try_except_def)
  qed
qed

lemma framed_if: "framed a \<Longrightarrow> framed b \<Longrightarrow> framed (if c then a else b)"
  by simp

lemma framed_case_option:
  "framed a \<Longrightarrow> (\<And>x. framed (b x)) \<Longrightarrow> framed (case v of None \<Rightarrow> a | Some x \<Rightarrow> b x)"
  by (cases v) simp_all

lemmas framed_intros = framed_returns framed_raise framed_logger framed_invoke framed_andthen
  framed_try_except framed_if framed_case_option

lemma framed_click_element_try: "framed (click_element_try d locator timeout)"
  unfolding click_element_try_def call_defs by (intro framed_intros)

lemma framed_click_element: "framed (click_element d locator timeout)"
  unfolding click_element_def click_element_intercepted_def call_defs
  by (intro framed_intros framed_click_element_try)

lemma framed_input_text_try: "framed (input_text_try d locator str timeout clear_first)"
  unfolding input_text_try_def call_defs by (intro framed_intros)

lemma framed_click_checkbox_try: "framed (click_checkbox_try d locator desired_state timeout)"
  unfolding click_checkbox_try_def checkbox_verification_def call_defs
  by (intro framed_intros framed_click_element)

lemma framed_select_dropdown_option_try:
  "framed (select_dropdown_option_try d locator option_text mode timeout)"
  unfolding select_dropdown_option_try_def call_defs by (intro framed_intros)

text \<open>A try statement entered after one log line, from a fresh run.\<close>

lemma entered:
  assumes "framed m"
  shows "andthen (logger lv fmt args) (\<lambda>_. try_except m h) (start s) =
    (case m (start s) of
       (Inl e, st1) \<Rightarrow> h e (st1\<lparr>logs := (lv, fmt, args) # logs st1\<rparr>)
     | (Inr x, st1) \<Rightarrow> (Inr x, st1\<lparr>logs := (lv, fmt, args) # logs st1\<rparr>))"
proof -
  let ?st = "\<lparr>session = s, trace = [], logs = [(lv, fmt, args)]\<rparr>"
  obtain r st1 where run: "m (start s) = (r, st1)" by (cases "m (start s)")
  have "m ?st = replay ?st (m (start s))"
    using framedD [OF assms, of ?st] by simp
  then have mst: "m ?st = (r, st1\<lparr>logs := (lv, fmt, args) # logs st1\<rparr>)"
    using run by (simp add: replay_def)
  have "andthen (logger lv fmt args) (\<lambda>_. try_except m h) (start s) = try_except m h ?st"
    by (simp add: andthen_def logger_def start_def)
  then show ?thesis
    using mst run by (cases r) (simp_all add: try_except_def)
qed

lemma selenium_simps:
  "until_invisibility_of_element_located selenium = (\<lambda>t l. attempt_invisibility (b_until_invisibility t l))"
  "until_element_to_be_clickable selenium = (\<lambda>t l. attempt_until (b_until_clickable t l))"
  "until_presence_of_element_located selenium = (\<lambda>t l. attempt_until (b_until_presence t l))"
  "drv_find_element selenium = (\<lambda>l. attempt (b_find_element l))"
  "drv_execute_script selenium = (\<lambda>js args. attempt (b_execute_script js args))"
  "el_is_enabled selenium = (\<lambda>e. attempt (b_is_enabled e))"
  "el_get_attribute selenium = (\<lambda>e a. attempt (b_get_attribute e a))"
  "el_clear selenium = (\<lambda>e. attempt (b_clear e))"
  "el_send_keys selenium = (\<lambda>e t. attempt (b_send_keys e t))"
  "el_click selenium = (\<lambda>e. attempt (b_click e))"
  "el_is_selected selenium = (\<lambda>e. attempt (b_is_selected e))"
  "sel_init selenium = (\<lambda>e. attempt (b_sel_init e))"
  "sel_select_by_visible_text selenium = (\<lambda>e t. attempt (b_select_by_visible_text e t))"
  "sel_select_by_value selenium = (\<lambda>e t. attempt (b_select_by_value e t))"
  "sel_select_by_index selenium = (\<lambda>e i. attempt (b_select_by_index e i))"
  "sel_first_selected_option_text selenium = (\<lambda>e. attempt (b_first_selected_option_text e))"
  "sel_options_text selenium = (\<lambda>e. attempt (b_options_text e))"
  "py_int selenium = decimal"
  by (simp_all add: selenium_def)

lemmas browser_defs = selenium_simps attempt_def attempt_invisibility_def attempt_until_def
  on_node_def b_until_invisibility_def
  b_until_clickable_def b_until_presence_def b_find_element_def b_is_enabled_def
  b_get_attribute_def b_clear_def b_send_keys_def b_click_def b_is_selected_def
  b_sel_init_def select_where_def b_select_by_visible_text_def b_select_by_value_def
  b_select_by_index_def b_first_selected_option_text_def b_options_text_def

lemmas page_defs = on_page_def blank_def email_def agree_def country_def overlay_def

subsection \<open>What reaches the caller\<close>

text \<open>An exception leaves a \<^verbatim>\<open>try\<close> statement only through one of its handlers, and a
  logged action only through the action.\<close>

lemma try_except_caught:
  assumes "try_except m h st = (Inl x, st')"
    and "\<And>e st1. m st = (Inl e, st1) \<Longrightarrow> h e st1 = (Inl x, st') \<Longrightarrow> \<not> is_exception x"
  shows "\<not> is_exception x"
proof (cases "m st")
  case (Pair r st1)
  show ?thesis
  proof (cases r)
    case (Inl e)
    with Pair assms show ?thesis by (simp add: try_except_def)
  next
    case (Inr y)
    with Pair assms(1) show ?thesis by (simp add: try_except_def)
  qed
qed

lemma logged_caught:
  assumes "andthen (logger lv fmt args) (\<lambda>_. m) st = (Inl x, st')"
    and "\<And>st1. m st1 = (Inl x, st') \<Longrightarrow> \<not> is_exception x"
  shows "\<not> is_exception x"
  using assms by (simp add: andthen_def logger_def)

lemma click_element_intercepted_caught:
  assumes "click_element_intercepted d locator st = (Inl x, st')"
  shows "\<not> is_exception x"
  using assms unfolding click_element_intercepted_def
  by (elim logged_caught try_except_caught) (auto simp: monad_defs split: if_splits)

lemma click_element_caught:
  assumes "click_element d locator timeout st = (Inl x, st')"
  shows "\<not> is_exception x"
  using assms unfolding click_element_def
  by (elim logged_caught try_except_caught)
     (auto simp: monad_defs split: if_splits dest: click_element_intercepted_caught)

lemma input_text_fallback_caught:
  assumes "input_text_fallback d locator str e st = (Inl x, st')"
  shows "\<not> is_exception x"
  using assms unfolding input_text_fallback_def
  by (elim logged_caught try_except_caught) (auto simp: monad_defs split: if_splits)

lemma input_text_caught:
  assumes "input_text d locator str timeout clear_first st = (Inl x, st')"
  shows "\<not> is_exception x"
  using assms unfolding input_text_def
  by (elim logged_caught try_except_caught)
     (auto simp: monad_defs split: if_splits dest: input_text_fallback_caught)

lemma click_checkbox_caught:
  assumes "click_checkbox d locator desired_state timeout st = (Inl x, st')"
  shows "\<not> is_exception x"
  using assms unfolding click_checkbox_def
  by (elim logged_caught try_except_caught) (auto simp: monad_defs split: if_splits)

text \<open>The bare \<^verbatim>\<open>except: pass\<close> lets nothing through.\<close>

lemma unit_try_total: "\<exists>st'. try_except m (\<lambda>_. returns ()) st = (Inr (), st')"
  by (cases "m st"; cases "fst (m st)") (auto simp: try_except_def returns_def)

lemma not_found_returns_False:
  "fst (select_dropdown_option_not_found d locator option_text st) = Inr False"
proof -
  define listing where "listing =
    try_except
      (andthen (find_element d locator) (\<lambda>element.
       andthen (Select d element) (\<lambda>select.
       andthen (options_text d select) (\<lambda>all_options.
       logger INFO msg_available_options [AStrs all_options]))))
      (\<lambda>_. returns ())"
  have total: "\<exists>st'. listing st1 = (Inr (), st')" for st1
    unfolding listing_def by (rule unit_try_total)
  have "fst (andthen listing (\<lambda>_. returns False) st1) = Inr False" for st1
  proof -
    obtain st2 where "listing st1 = (Inr (), st2)"
      using total by blast
    then show ?thesis by (simp add: andthen_def returns_def)
  qed
  then show ?thesis
    unfolding select_dropdown_option_not_found_def listing_def [symmetric]
    by (simp add: andthen_def logger_def)
qed

lemma select_dropdown_option_caught:
  assumes "select_dropdown_option d locator option_text mode timeout st = (Inl x, st')"
  shows "\<not> is_exception x"
  using assms unfolding select_dropdown_option_def
proof (elim logged_caught try_except_caught)
  fix st1 e st2
  assume "(if e = NoSuchElementException
         then select_dropdown_option_not_found d locator option_text
         else if e = TimeoutException
              then andthen (logger ERROR msg_timeout_dropdown [ALoc locator, AInt timeout])
                     (\<lambda>_. returns False)
              else if is_exception e
                   then andthen (logger ERROR msg_unexpected_dropdown [ALoc locator, AExn e])
                          (\<lambda>_. returns False)
                   else raise e) st2 = (Inl x, st')"
  then show "\<not> is_exception x"
    using not_found_returns_False [of d locator option_text st2]
    by (auto simp: monad_defs split: if_splits)
qed

lemma raised_or_returned:
  assumes "\<And>x st'. m st = (Inl x, st') \<Longrightarrow> \<not> is_exception x"
  shows "(\<exists>b. fst (m st) = Inr b) \<or> (\<exists>e. fst (m st) = Inl e \<and> \<not> is_exception e)"
proof (cases "m st")
  case (Pair r st')
  then show ?thesis using assms by (cases r) auto
qed

section \<open>Outcomes\<close>

text \<open>
  C1 (as stated: no operation ever propagates an exception, typed or otherwise). The
  handlers are \<^verbatim>\<open>except Exception\<close> clauses, and \<^verbatim>\<open>KeyboardInterrupt\<close> is not an
  \<^verbatim>\<open>Exception\<close>: on a driver whose first call is interrupted from the keyboard, each of
  the four operations raises \<^verbatim>\<open>KeyboardInterrupt\<close> to its caller.
\<close>

theorem operations_never_raise_counterexample:
  "fst (input_text selenium email ''a@b.com'' 15 True (start interrupted_page)) =
     Inl KeyboardInterrupt \<and>
   fst (click_element selenium email 15 (start interrupted_page)) = Inl KeyboardInterrupt \<and>
   fst (click_checkbox selenium email True 15 (start interrupted_page)) =
     Inl KeyboardInterrupt \<and>
   fst (select_dropdown_option selenium email ''France'' ''visible_text'' 15
          (start interrupted_page)) = Inl KeyboardInterrupt"
  by (simp add: input_text_def input_text_try_def click_element_def click_element_try_def
      click_checkbox_def click_checkbox_try_def select_dropdown_option_def
      select_dropdown_option_try_def monad_defs call_defs start_def browser_defs
      interrupted_page_def page_defs is_exception_def)

text \<open>
  C1 (as amended). Each driver call returns or raises. Then each of the four operations,
  for every driver, every state in which it is entered and every argument, returns a
  boolean or raises an exception that is not an \<^verbatim>\<open>Exception\<close> (\<^verbatim>\<open>KeyboardInterrupt\<close>,
  \<^verbatim>\<open>SystemExit\<close>): no \<^verbatim>\<open>Exception\<close> reaches the caller. When the wait for the target
  element times out (the locator matches nothing), the result is \<open>False\<close>. When the first
  call an operation makes raises an exception that is not an \<^verbatim>\<open>Exception\<close>, the operation
  raises it.
\<close>

theorem operations_catch_every_exception:
  "((\<exists>b. fst (input_text d locator str timeout clear_first st) = Inr b) \<or>
    (\<exists>e. fst (input_text d locator str timeout clear_first st) = Inl e \<and> \<not> is_exception e)) \<and>
   ((\<exists>b. fst (click_element d locator timeout st) = Inr b) \<or>
    (\<exists>e. fst (click_element d locator timeout st) = Inl e \<and> \<not> is_exception e)) \<and>
   ((\<exists>b. fst (click_checkbox d locator desired_state timeout st) = Inr b) \<or>
    (\<exists>e. fst (click_checkbox d locator desired_state timeout st) = Inl e \<and> \<not> is_exception e)) \<and>
   ((\<exists>b. fst (select_dropdown_option d locator option_text mode timeout st) = Inr b) \<or>
    (\<exists>e. fst (select_dropdown_option d locator option_text mode timeout st) = Inl e \<and>
         \<not> is_exception e)) \<and>
   (until_invisibility_of_element_located d 10 overlay s = (Inr (), sa) \<and>
    until_element_to_be_clickable d timeout locator sa = (Inl TimeoutException, sb) \<longrightarrow>
      fst (input_text d locator str timeout clear_first (start s)) = Inr False \<and>
      fst (click_element d locator timeout (start s)) = Inr False) \<and>
   (until_presence_of_element_located d timeout locator s = (Inl TimeoutException, sc) \<longrightarrow>
      fst (click_checkbox d locator desired_state timeout (start s)) = Inr False \<and>
      fst (select_dropdown_option d locator option_text mode timeout (start s)) = Inr False) \<and>
   (until_invisibility_of_element_located d 10 overlay s = (Inl x, sd) \<and> \<not> is_exception x \<longrightarrow>
      fst (input_text d locator str timeout clear_first (start s)) = Inl x \<and>
      fst (click_element d locator timeout (start s)) = Inl x) \<and>
   (until_presence_of_element_located d timeout locator s = (Inl y, se) \<and> \<not> is_exception y \<longrightarrow>
      fst (click_checkbox d locator desired_state timeout (start s)) = Inl y \<and>
      fst (select_dropdown_option d locator option_text mode timeout (start s)) = Inl y)"
proof -
  have clickable: "fst (input_text d locator str timeout clear_first (start s)) = Inr False \<and>
      fst (click_element d locator timeout (start s)) = Inr False"
    if "until_invisibility_of_element_located d 10 overlay s = (Inr (), sa)"
      and "until_element_to_be_clickable d timeout locator sa = (Inl TimeoutException, sb)"
    using that
    by (simp add: input_text_def input_text_try_def click_element_def click_element_try_def
        monad_defs wait_invisibility_def wait_clickable_def start_def)
  have presence: "fst (click_checkbox d locator desired_state timeout (start s)) = Inr False \<and>
      fst (select_dropdown_option d locator option_text mode timeout (start s)) = Inr False"
    if "until_presence_of_element_located d timeout locator s = (Inl TimeoutException, sc)"
    using that
    by (simp add: click_checkbox_def click_checkbox_try_def select_dropdown_option_def
        select_dropdown_option_try_def monad_defs wait_presence_def start_def)
  have interrupted: "fst (input_text d locator str timeout clear_first (start s)) = Inl x \<and>
      fst (click_element d locator timeout (start s)) = Inl x"
    if "until_invisibility_of_element_located d 10 overlay s = (Inl x, sd)" and "\<not> is_exception x"
    using that
    by (auto simp: input_text_def input_text_try_def click_element_def click_element_try_def
        monad_defs wait_invisibility_def start_def is_exception_def)
  have interrupted': "fst (click_checkbox d locator desired_state timeout (start s)) = Inl y \<and>
      fst (select_dropdown_option d locator option_text mode timeout (start s)) = Inl y"
    if "until_presence_of_element_located d timeout locator s = (Inl y, se)" and "\<not> is_exception y"
    using that
    by (auto simp: click_checkbox_def click_checkbox_try_def select_dropdown_option_def
        select_dropdown_option_try_def monad_defs wait_presence_def start_def is_exception_def)
  show ?thesis
    using clickable presence interrupted interrupted'
    by (intro conjI impI raised_or_returned)
       (auto dest: input_text_caught click_element_caught click_checkbox_caught
          select_dropdown_option_caught)
qed

theorem operations_catch_every_exception_witness:
  "until_invisibility_of_element_located selenium 10 overlay (on_page [] []) =
     (Inr (), on_page [] []) \<and>
   until_element_to_be_clickable selenium 15 email (on_page [] []) =
     (Inl TimeoutException, on_page [] []) \<and>
   until_presence_of_element_located selenium 15 email (on_page [] []) =
     (Inl TimeoutException, on_page [] []) \<and>
   fst (input_text selenium email ''a@b.com'' 15 True (start (on_page [] []))) = Inr False \<and>
   fst (click_element selenium email 15 (start (on_page [] []))) = Inr False \<and>
   fst (click_checkbox selenium email True 15 (start (on_page [] []))) = Inr False \<and>
   fst (select_dropdown_option selenium email ''France'' ''visible_text'' 15
          (start (on_page [] []))) = Inr False \<and>
   until_invisibility_of_element_located selenium 10 overlay interrupted_page =
     (Inl KeyboardInterrupt, on_page [(email, blank\<lparr>n_kind := TextField\<rparr>)] []) \<and>
   until_presence_of_element_located selenium 15 email interrupted_page =
     (Inl KeyboardInterrupt, on_page [(email, blank\<lparr>n_kind := TextField\<rparr>)] []) \<and>
   \<not> is_exception KeyboardInterrupt \<and>
   fst (input_text selenium email ''a@b.com'' 15 True (start interrupted_page)) =
     Inl KeyboardInterrupt \<and>
   fst (click_element selenium email 15 (start interrupted_page)) = Inl KeyboardInterrupt \<and>
   fst (click_checkbox selenium email True 15 (start interrupted_page)) =
     Inl KeyboardInterrupt \<and>
   fst (select_dropdown_option selenium email ''France'' ''visible_text'' 15
          (start interrupted_page)) = Inl KeyboardInterrupt"
proof -
  let ?left = "on_page [(email, blank\<lparr>n_kind := TextField\<rparr>)] []"
  have h1: "until_invisibility_of_element_located selenium 10 overlay (on_page [] []) =
      (Inr (), on_page [] [])"
    by (simp add: browser_defs on_page_def)
  have h2: "until_element_to_be_clickable selenium 15 email (on_page [] []) =
      (Inl TimeoutException, on_page [] [])"
    by (simp add: browser_defs on_page_def)
  have h3: "until_presence_of_element_located selenium 15 email (on_page [] []) =
      (Inl TimeoutException, on_page [] [])"
    by (simp add: browser_defs on_page_def)
  have h4: "until_invisibility_of_element_located selenium 10 overlay interrupted_page =
      (Inl KeyboardInterrupt, ?left)"
    by (simp add: browser_defs interrupted_page_def on_page_def)
  have h5: "until_presence_of_element_located selenium 15 email interrupted_page =
      (Inl KeyboardInterrupt, ?left)"
    by (simp add: browser_defs interrupted_page_def on_page_def)
  have h6: "\<not> is_exception KeyboardInterrupt"
    by (simp add: is_exception_def)
  have timed_out:
    "fst (input_text selenium email ''a@b.com'' 15 True (start (on_page [] []))) = Inr False \<and>
     fst (click_element selenium email 15 (start (on_page [] []))) = Inr False \<and>
     fst (click_checkbox selenium email True 15 (start (on_page [] []))) = Inr False \<and>
     fst (select_dropdown_option selenium email ''France'' ''visible_text'' 15
            (start (on_page [] []))) = Inr False"
    using h1 h2 h3
      operations_catch_every_exception [where d = selenium and s = "on_page [] []"
        and locator = email and timeout = 15 and sa = "on_page [] []" and sb = "on_page [] []"
        and sc = "on_page [] []" and str = "''a@b.com''" and clear_first = True
        and desired_state = True and option_text = "''France''" and mode = "''visible_text''"
        and st = "start (on_page [] [])" and x = KeyboardInterrupt and y = KeyboardInterrupt
        and sd = "on_page [] []" and se = "on_page [] []"]
    by simp
  have interrupted:
    "fst (input_text selenium email ''a@b.com'' 15 True (start interrupted_page)) =
       Inl KeyboardInterrupt \<and>
     fst (click_element selenium email 15 (start interrupted_page)) = Inl KeyboardInterrupt \<and>
     fst (click_checkbox selenium email True 15 (start interrupted_page)) =
       Inl KeyboardInterrupt \<and>
     fst (select_dropdown_option selenium email ''France'' ''visible_text'' 15
            (start interrupted_page)) = Inl KeyboardInterrupt"
    using h4 h5 h6
      operations_catch_every_exception [where d = selenium and s = interrupted_page
        and locator = email and timeout = 15 and sa = ?left and sb = ?left
        and sc = ?left and str = "''a@b.com''" and clear_first = True
        and desired_state = True and option_text = "''France''" and mode = "''visible_text''"
        and st = "start interrupted_page" and x = KeyboardInterrupt and y = KeyboardInterrupt
        and sd = ?left and se = ?left]
    by simp
  show ?thesis
    using h1 h2 h3 h4 h5 h6 timed_out interrupted by simp
qed

subsection \<open>The try statements, entered from a fresh run\<close>

lemma input_text_entered:
  "input_text d locator str timeout clear_first (start s) =
    (case input_text_try d locator str timeout clear_first (start s) of
       (Inl e, st1) \<Rightarrow>
         (if e = TimeoutException then
            andthen (logger ERROR msg_timeout_element [ALoc locator, AInt timeout]) (\<lambda>_.
            returns False)
          else if is_exception e then input_text_fallback d locator str e
          else raise e)
         (st1\<lparr>logs := (INFO, msg_attempting_input, [ALoc locator]) # logs st1\<rparr>)
     | (Inr x, st1) \<Rightarrow>
         (Inr x, st1\<lparr>logs := (INFO, msg_attempting_input, [ALoc locator]) # logs st1\<rparr>))"
  unfolding input_text_def by (rule entered [OF framed_input_text_try])

lemma click_element_entered:
  "click_element d locator timeout (start s) =
    (case click_element_try d locator timeout (start s) of
       (Inl e, st1) \<Rightarrow>
         (if e = ElementClickInterceptedException then click_element_intercepted d locator
          else if e = TimeoutException then
            andthen (logger ERROR msg_timeout_element [ALoc locator, AInt timeout]) (\<lambda>_.
            returns False)
          else if is_exception e then
            andthen (logger ERROR msg_unexpected_clicking [ALoc locator, AExn e]) (\<lambda>_.
            returns False)
          else raise e)
         (st1\<lparr>logs := (INFO, msg_attempting_click, [ALoc locator]) # logs st1\<rparr>)
     | (Inr x, st1) \<Rightarrow>
         (Inr x, st1\<lparr>logs := (INFO, msg_attempting_click, [ALoc locator]) # logs st1\<rparr>))"
  unfolding click_element_def by (rule entered [OF framed_click_element_try])

lemma click_checkbox_entered:
  "click_checkbox d locator desired_state timeout (start s) =
    (case click_checkbox_try d locator desired_state timeout (start s) of
       (Inl e, st1) \<Rightarrow>
         (if e = TimeoutException then
            andthen (logger ERROR msg_timeout_checkbox [ALoc locator, AInt timeout]) (\<lambda>_.
            returns False)
          else if is_exception e then
            andthen (logger ERROR msg_unexpected_checkbox [ALoc locator, AExn e]) (\<lambda>_.
            returns False)
          else raise e)
         (st1\<lparr>logs := (INFO, msg_attempting_checkbox, [ALoc locator, ABool desired_state]) # logs st1\<rparr>)
     | (Inr x, st1) \<Rightarrow>
         (Inr x, st1\<lparr>logs := (INFO, msg_attempting_checkbox, [ALoc locator, ABool desired_state]) # logs st1\<rparr>))"
  unfolding click_checkbox_def by (rule entered [OF framed_click_checkbox_try])

lemma select_dropdown_option_entered:
  "select_dropdown_option d locator option_text mode timeout (start s) =
    (case select_dropdown_option_try d locator option_text mode timeout (start s) of
       (Inl e, st1) \<Rightarrow>
         (if e = NoSuchElementException then select_dropdown_option_not_found d locator option_text
          else if e = TimeoutException then
            andthen (logger ERROR msg_timeout_dropdown [ALoc locator, AInt timeout]) (\<lambda>_.
            returns False)
          else if is_exception e then
            andthen (logger ERROR msg_unexpected_dropdown [ALoc locator, AExn e]) (\<lambda>_.
            returns False)
          else raise e)
         (st1\<lparr>logs := (INFO, msg_attempting_select, [AStr option_text, ALoc locator]) # logs st1\<rparr>)
     | (Inr x, st1) \<Rightarrow>
         (Inr x, st1\<lparr>logs := (INFO, msg_attempting_select, [AStr option_text, ALoc locator]) # logs st1\<rparr>))"
  unfolding select_dropdown_option_def by (rule entered [OF framed_select_dropdown_option_try])

section \<open>The loading-overlay wait\<close>

text \<open>
  C2 (as stated: the overlay wait is advisory, and an operation whose overlay wait times
  out proceeds to its remaining steps). The wait sits inside the \<^verbatim>\<open>try\<close> block, so its
  \<^verbatim>\<open>TimeoutException\<close> reaches \<^verbatim>\<open>except TimeoutException\<close>. On a page where the overlay
  stays visible over an ordinary text field, both operations make that one call and
  return \<open>False\<close>.
\<close>

theorem overlay_wait_advisory_counterexample:
  "page dimmed_page email = Some (blank\<lparr>n_kind := TextField\<rparr>) \<and>
   fst (input_text selenium email ''a@b.com'' 15 True (start dimmed_page)) = Inr False \<and>
   trace (snd (input_text selenium email ''a@b.com'' 15 True (start dimmed_page))) =
     [(Until_invisibility 10 overlay, Raised TimeoutException)] \<and>
   fst (click_element selenium email 15 (start dimmed_page)) = Inr False \<and>
   trace (snd (click_element selenium email 15 (start dimmed_page))) =
     [(Until_invisibility 10 overlay, Raised TimeoutException)]"
  by (simp add: input_text_def input_text_try_def click_element_def click_element_try_def
      monad_defs wait_invisibility_def start_def browser_defs dimmed_page_def page_defs)

text \<open>
  C2 (as amended). For every driver and session in which the overlay wait raises
  \<^verbatim>\<open>TimeoutException\<close>, Text Input and Element Click return \<open>False\<close>, the overlay wait
  is the only call they make, and they log two lines: the line that announces the
  operation and the error line of the timeout.
\<close>

theorem overlay_timeout_is_fatal:
  assumes "until_invisibility_of_element_located d 10 overlay s = (Inl TimeoutException, sa)"
  shows "fst (input_text d locator str timeout clear_first (start s)) = Inr False \<and>
         trace (snd (input_text d locator str timeout clear_first (start s))) =
           [(Until_invisibility 10 overlay, Raised TimeoutException)] \<and>
         logs (snd (input_text d locator str timeout clear_first (start s))) =
           [(INFO, msg_attempting_input, [ALoc locator]),
            (ERROR, msg_timeout_element, [ALoc locator, AInt timeout])] \<and>
         fst (click_element d locator timeout (start s)) = Inr False \<and>
         trace (snd (click_element d locator timeout (start s))) =
           [(Until_invisibility 10 overlay, Raised TimeoutException)] \<and>
         logs (snd (click_element d locator timeout (start s))) =
           [(INFO, msg_attempting_click, [ALoc locator]),
            (ERROR, msg_timeout_element, [ALoc locator, AInt timeout])]"
  using assms
  by (simp add: input_text_def input_text_try_def click_element_def click_element_try_def
      monad_defs wait_invisibility_def start_def)

theorem overlay_timeout_is_fatal_witness:
  "until_invisibility_of_element_located selenium 10 overlay dimmed_page =
     (Inl TimeoutException, dimmed_page) \<and>
   fst (input_text selenium email ''a@b.com'' 15 True (start dimmed_page)) = Inr False \<and>
   trace (snd (input_text selenium email ''a@b.com'' 15 True (start dimmed_page))) =
     [(Until_invisibility 10 overlay, Raised TimeoutException)] \<and>
   logs (snd (input_text selenium email ''a@b.com'' 15 True (start dimmed_page))) =
     [(INFO, msg_attempting_input, [ALoc email]),
      (ERROR, msg_timeout_element, [ALoc email, AInt 15])] \<and>
   fst (click_element selenium email 15 (start dimmed_page)) = Inr False \<and>
   trace (snd (click_element selenium email 15 (start dimmed_page))) =
     [(Until_invisibility 10 overlay, Raised TimeoutException)] \<and>
   logs (snd (click_element selenium email 15 (start dimmed_page))) =
     [(INFO, msg_attempting_click, [ALoc email]),
      (ERROR, msg_timeout_element, [ALoc email, AInt 15])]"
proof -
  have h: "until_invisibility_of_element_located selenium 10 overlay dimmed_page =
      (Inl TimeoutException, dimmed_page)"
    by (simp add: browser_defs dimmed_page_def on_page_def blank_def)
  show ?thesis
    using h overlay_timeout_is_fatal [OF h, of email "''a@b.com''" 15 True] by simp
qed

section \<open>The last-resort fallback of Text Input\<close>

text \<open>
  C3 (as stated: every exception raised in steps 1 to 6 leads to the fallback). A
  \<^verbatim>\<open>TimeoutException\<close> does not: on a page whose field is present but hidden, the wait
  for the element times out in step 2, and the run ends there with \<open>False\<close>; no
  \<^verbatim>\<open>find_element\<close> follows.
\<close>

theorem fallback_on_every_exception_counterexample:
  "fst (input_text_try selenium email ''a@b.com'' 15 True (start hidden_field_page)) =
     Inl TimeoutException \<and>
   fst (input_text selenium email ''a@b.com'' 15 True (start hidden_field_page)) = Inr False \<and>
   trace (snd (input_text selenium email ''a@b.com'' 15 True (start hidden_field_page))) =
     [(Until_invisibility 10 overlay, Returned VNone),
      (Until_clickable 15 email, Raised TimeoutException)]"
  by (simp add: input_text_def input_text_try_def monad_defs call_defs start_def browser_defs
      hidden_field_page_def page_defs)

text \<open>
  C3 (as amended). When the \<^verbatim>\<open>try\<close> block of Text Input raises \<open>e\<close>:
  if \<open>e\<close> is \<^verbatim>\<open>TimeoutException\<close> the run ends with \<open>False\<close> and no further call;
  if \<open>e\<close> is any other \<^verbatim>\<open>Exception\<close>, exactly one fallback follows, which locates the
  element again, sets its value by script and dispatches \<^verbatim>\<open>input\<close>, and the result is
  \<open>False\<close> exactly when one of these three calls raises an \<^verbatim>\<open>Exception\<close>. The other
  operations have no such fallback: an \<^verbatim>\<open>Exception\<close> from the \<^verbatim>\<open>try\<close> block of Element
  Click (other than click-intercepted), of Checkbox Toggle, or of Dropdown Selection
  (other than no-such-element) ends the run with \<open>False\<close> and no further call. What is
  raised and is not an \<^verbatim>\<open>Exception\<close> ends the run at once and reaches the caller.
\<close>

theorem last_resort_fallback:
  "(input_text_try d locator str timeout clear_first (start s) = (Inl e, sti) \<longrightarrow>
      (if e = TimeoutException then
         fst (input_text d locator str timeout clear_first (start s)) = Inr False \<and>
         trace (snd (input_text d locator str timeout clear_first (start s))) = trace sti
       else if \<not> is_exception e then
         fst (input_text d locator str timeout clear_first (start s)) = Inl e \<and>
         trace (snd (input_text d locator str timeout clear_first (start s))) = trace sti
       else
         (case drv_find_element d locator (session sti) of
            (Inl x, sa) \<Rightarrow>
              fst (input_text d locator str timeout clear_first (start s)) =
                (if is_exception x then Inr False else Inl x) \<and>
              trace (snd (input_text d locator str timeout clear_first (start s))) =
                trace sti @ [(Find_element locator, Raised x)]
          | (Inr el, sa) \<Rightarrow>
              (case drv_execute_script d SetValue [JElem el, JStr str] sa of
                 (Inl x, sb) \<Rightarrow>
                   fst (input_text d locator str timeout clear_first (start s)) =
                     (if is_exception x then Inr False else Inl x) \<and>
                   trace (snd (input_text d locator str timeout clear_first (start s))) =
                     trace sti @
                     [(Find_element locator, Returned (VElem el)),
                      (Execute_script SetValue [JElem el, JStr str], Raised x)]
               | (Inr u, sb) \<Rightarrow>
                   (case drv_execute_script d DispatchInput [JElem el] sb of
                      (Inl x, sc) \<Rightarrow>
                        fst (input_text d locator str timeout clear_first (start s)) =
                          (if is_exception x then Inr False else Inl x) \<and>
                        trace (snd (input_text d locator str timeout clear_first (start s))) =
                          trace sti @
                          [(Find_element locator, Returned (VElem el)),
                           (Execute_script SetValue [JElem el, JStr str], Returned VNone),
                           (Execute_script DispatchInput [JElem el], Raised x)]
                    | (Inr v, sc) \<Rightarrow>
                        fst (input_text d locator str timeout clear_first (start s)) = Inr True \<and>
                        trace (snd (input_text d locator str timeout clear_first (start s))) =
                          trace sti @
                          [(Find_element locator, Returned (VElem el)),
                           (Execute_script SetValue [JElem el, JStr str], Returned VNone),
                           (Execute_script DispatchInput [JElem el], Returned VNone)]))))) \<and>
   (click_element_try d locator timeout (start s) = (Inl ec, stc) \<and>
    ec \<noteq> ElementClickInterceptedException \<longrightarrow>
      fst (click_element d locator timeout (start s)) =
        (if is_exception ec then Inr False else Inl ec) \<and>
      trace (snd (click_element d locator timeout (start s))) = trace stc) \<and>
   (click_checkbox_try d locator desired_state timeout (start s) = (Inl ek, stk) \<longrightarrow>
      fst (click_checkbox d locator desired_state timeout (start s)) =
        (if is_exception ek then Inr False else Inl ek) \<and>
      trace (snd (click_checkbox d locator desired_state timeout (start s))) = trace stk) \<and>
   (select_dropdown_option_try d locator option_text mode timeout (start s) = (Inl ed, std) \<and>
    ed \<noteq> NoSuchElementException \<longrightarrow>
      fst (select_dropdown_option d locator option_text mode timeout (start s)) =
        (if is_exception ed then Inr False else Inl ed) \<and>
      trace (snd (select_dropdown_option d locator option_text mode timeout (start s))) = trace std)"
proof (intro conjI impI)
  assume "input_text_try d locator str timeout clear_first (start s) = (Inl e, sti)"
  then show "if e = TimeoutException then
         fst (input_text d locator str timeout clear_first (start s)) = Inr False \<and>
         trace (snd (input_text d locator str timeout clear_first (start s))) = trace sti
       else if \<not> is_exception e then
         fst (input_text d locator str timeout clear_first (start s)) = Inl e \<and>
         trace (snd (input_text d locator str timeout clear_first (start s))) = trace sti
       else
         (case drv_find_element d locator (session sti) of
            (Inl x, sa) \<Rightarrow>
              fst (input_text d locator str timeout clear_first (start s)) =
                (if is_exception x then Inr False else Inl x) \<and>
              trace (snd (input_text d locator str timeout clear_first (start s))) =
                trace sti @ [(Find_element locator, Raised x)]
          | (Inr el, sa) \<Rightarrow>
              (case drv_execute_script d SetValue [JElem el, JStr str] sa of
                 (Inl x, sb) \<Rightarrow>
                   fst (input_text d locator str timeout clear_first (start s)) =
                     (if is_exception x then Inr False else Inl x) \<and>
                   trace (snd (input_text d locator str timeout clear_first (start s))) =
                     trace sti @
                     [(Find_element locator, Returned (VElem el)),
                      (Execute_script SetValue [JElem el, JStr str], Raised x)]
               | (Inr u, sb) \<Rightarrow>
                   (case drv_execute_script d DispatchInput [JElem el] sb of
                      (Inl x, sc) \<Rightarrow>
                        fst (input_text d locator str timeout clear_first (start s)) =
                          (if is_exception x then Inr False else Inl x) \<and>
                        trace (snd (input_text d locator str timeout clear_first (start s))) =
                          trace sti @
                          [(Find_element locator, Returned (VElem el)),
                           (Execute_script SetValue [JElem el, JStr str], Returned VNone),
                           (Execute_script DispatchInput [JElem el], Raised x)]
                    | (Inr v, sc) \<Rightarrow>
                        fst (input_text d locator str timeout clear_first (start s)) = Inr True \<and>
                        trace (snd (input_text d locator str timeout clear_first (start s))) =
                          trace sti @
                          [(Find_element locator, Returned (VElem el)),
                           (Execute_script SetValue [JElem el, JStr str], Returned VNone),
                           (Execute_script DispatchInput [JElem el], Returned VNone)])))"
    by (simp add: input_text_entered input_text_fallback_def monad_defs find_element_def
        execute_script_def is_exception_def split: prod.splits sum.splits)
next
  assume "click_element_try d locator timeout (start s) = (Inl ec, stc) \<and>
    ec \<noteq> ElementClickInterceptedException"
  then show "fst (click_element d locator timeout (start s)) =
        (if is_exception ec then Inr False else Inl ec)"
    and "trace (snd (click_element d locator timeout (start s))) = trace stc"
    by (simp_all add: click_element_entered monad_defs is_exception_def)
next
  assume "click_checkbox_try d locator desired_state timeout (start s) = (Inl ek, stk)"
  then show "fst (click_checkbox d locator desired_state timeout (start s)) =
        (if is_exception ek then Inr False else Inl ek)"
    and "trace (snd (click_checkbox d locator desired_state timeout (start s))) = trace stk"
    by (simp_all add: click_checkbox_entered monad_defs is_exception_def)
next
  assume "select_dropdown_option_try d locator option_text mode timeout (start s) = (Inl ed, std) \<and>
    ed \<noteq> NoSuchElementException"
  then show "fst (select_dropdown_option d locator option_text mode timeout (start s)) =
        (if is_exception ed then Inr False else Inl ed)"
    and "trace (snd (select_dropdown_option d locator option_text mode timeout (start s))) = trace std"
    by (simp_all add: select_dropdown_option_entered monad_defs is_exception_def)
qed


theorem last_resort_fallback_witness:
  "fst (input_text_try selenium email ''a@b.com'' 15 True
          (start (flaky_page [None, None, Some StaleElementReferenceException]))) =
     Inl StaleElementReferenceException \<and>
   fst (input_text selenium email ''a@b.com'' 15 True
          (start (flaky_page [None, None, Some StaleElementReferenceException]))) = Inr True \<and>
   trace (snd (input_text selenium email ''a@b.com'' 15 True
          (start (flaky_page [None, None, Some StaleElementReferenceException])))) =
     [(Until_invisibility 10 overlay, Returned VNone),
      (Until_clickable 15 email, Returned (VElem (WebElement email))),
      (Execute_script ScrollIntoView [JElem (WebElement email)],
       Raised StaleElementReferenceException),
      (Find_element email, Returned (VElem (WebElement email))),
      (Execute_script SetValue [JElem (WebElement email), JStr ''a@b.com''], Returned VNone),
      (Execute_script DispatchInput [JElem (WebElement email)], Returned VNone)] \<and>
   fst (click_element_try selenium email 15
          (start (flaky_page [None, None, Some StaleElementReferenceException]))) =
     Inl StaleElementReferenceException \<and>
   fst (click_element selenium email 15
          (start (flaky_page [None, None, Some StaleElementReferenceException]))) = Inr False \<and>
   trace (snd (click_element selenium email 15
          (start (flaky_page [None, None, Some StaleElementReferenceException])))) =
     [(Until_invisibility 10 overlay, Returned VNone),
      (Until_clickable 15 email, Returned (VElem (WebElement email))),
      (Execute_script ScrollIntoView [JElem (WebElement email)],
       Raised StaleElementReferenceException)] \<and>
   fst (click_checkbox_try selenium email True 15
          (start (flaky_page [None, Some StaleElementReferenceException]))) =
     Inl StaleElementReferenceException \<and>
   fst (click_checkbox selenium email True 15
          (start (flaky_page [None, Some StaleElementReferenceException]))) = Inr False \<and>
   trace (snd (click_checkbox selenium email True 15
          (start (flaky_page [None, Some StaleElementReferenceException])))) =
     [(Until_presence 15 email, Returned (VElem (WebElement email))),
      (Execute_script ScrollIntoView [JElem (WebElement email)],
       Raised StaleElementReferenceException)] \<and>
   fst (select_dropdown_option_try selenium email ''France'' ''visible_text'' 15
          (start (flaky_page [None, Some StaleElementReferenceException]))) =
     Inl StaleElementReferenceException \<and>
   fst (select_dropdown_option selenium email ''France'' ''visible_text'' 15
          (start (flaky_page [None, Some StaleElementReferenceException]))) = Inr False \<and>
   trace (snd (select_dropdown_option selenium email ''France'' ''visible_text'' 15
          (start (flaky_page [None, Some StaleElementReferenceException])))) =
     [(Until_presence 15 email, Returned (VElem (WebElement email))),
      (Execute_script ScrollIntoView [JElem (WebElement email)],
       Raised StaleElementReferenceException)]"
proof -
  let ?three = "flaky_page [None, None, Some StaleElementReferenceException]"
  let ?two = "flaky_page [None, Some StaleElementReferenceException]"
  let ?i = "input_text_try selenium email ''a@b.com'' 15 True (start ?three)"
  let ?c = "click_element_try selenium email 15 (start ?three)"
  let ?k = "click_checkbox_try selenium email True 15 (start ?two)"
  let ?d = "select_dropdown_option_try selenium email ''France'' ''visible_text'' 15 (start ?two)"
  let ?tr3 = "[(Until_invisibility 10 overlay, Returned VNone),
      (Until_clickable 15 email, Returned (VElem (WebElement email))),
      (Execute_script ScrollIntoView [JElem (WebElement email)],
       Raised StaleElementReferenceException)]"
  let ?tr2 = "[(Until_presence 15 email, Returned (VElem (WebElement email))),
      (Execute_script ScrollIntoView [JElem (WebElement email)],
       Raised StaleElementReferenceException)]"
  let ?sti = "\<lparr>session = flaky_page [], trace = ?tr3, logs = []\<rparr>"
  let ?stk = "\<lparr>session = flaky_page [], trace = ?tr2, logs = []\<rparr>"
  have stale: "is_exception StaleElementReferenceException"
    by (simp add: is_exception_def)
  have i: "?i = (Inl StaleElementReferenceException, ?sti)"
    by (simp add: input_text_try_def monad_defs call_defs start_def browser_defs flaky_page_def
        page_defs)
  have c: "?c = (Inl StaleElementReferenceException, ?sti)"
    by (simp add: click_element_try_def monad_defs call_defs start_def browser_defs flaky_page_def
        page_defs)
  have k: "?k = (Inl StaleElementReferenceException, ?stk)"
    by (simp add: click_checkbox_try_def monad_defs call_defs start_def browser_defs flaky_page_def
        page_defs)
  have d: "?d = (Inl StaleElementReferenceException, ?stk)"
    by (simp add: select_dropdown_option_try_def monad_defs call_defs start_def browser_defs
        flaky_page_def page_defs)
  have three: "(fst (input_text selenium email ''a@b.com'' 15 True (start ?three)) = Inr True \<and>
      trace (snd (input_text selenium email ''a@b.com'' 15 True (start ?three))) =
        ?tr3 @
        [(Find_element email, Returned (VElem (WebElement email))),
         (Execute_script SetValue [JElem (WebElement email), JStr ''a@b.com''], Returned VNone),
         (Execute_script DispatchInput [JElem (WebElement email)], Returned VNone)]) \<and>
     fst (click_element selenium email 15 (start ?three)) = Inr False \<and>
     trace (snd (click_element selenium email 15 (start ?three))) = ?tr3"
    using i c stale
      last_resort_fallback [where d = selenium and locator = email and str = "''a@b.com''"
        and timeout = 15 and clear_first = True and s = ?three
        and e = StaleElementReferenceException and sti = ?sti
        and ec = StaleElementReferenceException and stc = ?sti and desired_state = True
        and ek = StaleElementReferenceException and stk = ?stk and option_text = "''France''"
        and mode = "''visible_text''" and ed = StaleElementReferenceException and std = ?stk]
    by (simp add: browser_defs flaky_page_def page_defs)
  have two: "fst (click_checkbox selenium email True 15 (start ?two)) = Inr False \<and>
     trace (snd (click_checkbox selenium email True 15 (start ?two))) = ?tr2 \<and>
     fst (select_dropdown_option selenium email ''France'' ''visible_text'' 15 (start ?two)) =
       Inr False \<and>
     trace (snd (select_dropdown_option selenium email ''France'' ''visible_text'' 15
       (start ?two))) = ?tr2"
    using k d stale
      last_resort_fallback [where d = selenium and locator = email and str = "''a@b.com''"
        and timeout = 15 and clear_first = True and s = ?two
        and e = StaleElementReferenceException and sti = ?sti
        and ec = StaleElementReferenceException and stc = ?sti and desired_state = True
        and ek = StaleElementReferenceException and stk = ?stk and option_text = "''France''"
        and mode = "''visible_text''" and ed = StaleElementReferenceException and std = ?stk]
    by simp
  show ?thesis
    using i c k d three two by simp
qed

section \<open>The forced click of Element Click\<close>








section \<open>Checkbox Toggle\<close>

text \<open>The delegated click, resumed in the middle of a run.\<close>

lemma click_element_resumed:
  "lg \<noteq> [] \<Longrightarrow>
   click_element d l t \<lparr>session = sx, trace = tr, logs = lg\<rparr> =
     replay \<lparr>session = sx, trace = tr, logs = lg\<rparr>
       (click_element d l t \<lparr>session = sx, trace = [], logs = []\<rparr>)"
  using framedD [OF framed_click_element, of d l t "\<lparr>session = sx, trace = tr, logs = lg\<rparr>"]
  by (simp add: start_def)

lemmas checkbox_run = click_checkbox_entered [unfolded start_def] click_checkbox_try_def checkbox_verification_def
  monad_defs wait_presence_def execute_script_def is_selected_def find_element_def start_def
  click_element_resumed replay_def

lemmas click_element_run = click_element_def click_element_try_def click_element_intercepted_def
  monad_defs wait_invisibility_def wait_clickable_def execute_script_def click_def
  find_element_def start_def

text \<open>
  C8. Let the control be present, the scroll succeed and the first read of the state
  give \<open>cur\<close>. If \<open>cur\<close> is the desired state (no click), or it is not and the delegated
  Element Click returns \<open>True\<close>, the element is located again and its state read again;
  when both calls return, the result is \<open>True\<close> exactly when the state just read equals
  the desired state, and when either raises an \<^verbatim>\<open>Exception\<close> the result is \<open>False\<close> (what
  is not an \<^verbatim>\<open>Exception\<close> reaches the caller). If the delegated
  Element Click returns \<open>False\<close>, the result is \<open>False\<close> and the run ends with the trace of
  that click: no verification follows.
\<close>

theorem checkbox_result_is_fresh_state:
  "(until_presence_of_element_located d timeout locator s = (Inr el, sa) \<and>
    drv_execute_script d ScrollIntoView [JElem el] sa = (Inr u, sb) \<and>
    el_is_selected d el sb = (Inr cur, sc) \<and>
    (if cur = desired_state then stc = start sc
     else click_element d locator timeout (start sc) = (Inr True, stc)) \<longrightarrow>
      (case drv_find_element d locator (session stc) of
         (Inl x, sd) \<Rightarrow>
           fst (click_checkbox d locator desired_state timeout (start s)) =
             (if is_exception x then Inr False else Inl x)
       | (Inr el', sd) \<Rightarrow>
           (case el_is_selected d el' sd of
              (Inl x, se) \<Rightarrow>
                fst (click_checkbox d locator desired_state timeout (start s)) =
                  (if is_exception x then Inr False else Inl x)
            | (Inr final_state, se) \<Rightarrow>
                fst (click_checkbox d locator desired_state timeout (start s)) =
                  Inr (final_state = desired_state) \<and>
                trace (snd (click_checkbox d locator desired_state timeout (start s))) =
                  [(Until_presence timeout locator, Returned (VElem el)),
                   (Execute_script ScrollIntoView [JElem el], Returned VNone),
                   (Is_selected el, Returned (VBool cur))] @ trace stc @
                  [(Find_element locator, Returned (VElem el')),
                   (Is_selected el', Returned (VBool final_state))]))) \<and>
   (until_presence_of_element_located d timeout locator s = (Inr el, sa) \<and>
    drv_execute_script d ScrollIntoView [JElem el] sa = (Inr u, sb) \<and>
    el_is_selected d el sb = (Inr cur, sc) \<and> cur \<noteq> desired_state \<and>
    click_element d locator timeout (start sc) = (Inr False, stf) \<longrightarrow>
      fst (click_checkbox d locator desired_state timeout (start s)) = Inr False \<and>
      trace (snd (click_checkbox d locator desired_state timeout (start s))) =
        [(Until_presence timeout locator, Returned (VElem el)),
         (Execute_script ScrollIntoView [JElem el], Returned VNone),
         (Is_selected el, Returned (VBool cur))] @ trace stf)"
proof (intro conjI impI)
  assume h: "until_presence_of_element_located d timeout locator s = (Inr el, sa) \<and>
    drv_execute_script d ScrollIntoView [JElem el] sa = (Inr u, sb) \<and>
    el_is_selected d el sb = (Inr cur, sc) \<and>
    (if cur = desired_state then stc = start sc
     else click_element d locator timeout (start sc) = (Inr True, stc))"
  show "case drv_find_element d locator (session stc) of
         (Inl x, sd) \<Rightarrow>
           fst (click_checkbox d locator desired_state timeout (start s)) =
             (if is_exception x then Inr False else Inl x)
       | (Inr el', sd) \<Rightarrow>
           (case el_is_selected d el' sd of
              (Inl x, se) \<Rightarrow>
                fst (click_checkbox d locator desired_state timeout (start s)) =
                  (if is_exception x then Inr False else Inl x)
            | (Inr final_state, se) \<Rightarrow>
                fst (click_checkbox d locator desired_state timeout (start s)) =
                  Inr (final_state = desired_state) \<and>
                trace (snd (click_checkbox d locator desired_state timeout (start s))) =
                  [(Until_presence timeout locator, Returned (VElem el)),
                   (Execute_script ScrollIntoView [JElem el], Returned VNone),
                   (Is_selected el, Returned (VBool cur))] @ trace stc @
                  [(Find_element locator, Returned (VElem el')),
                   (Is_selected el', Returned (VBool final_state))])"
  proof (cases "cur = desired_state")
    case True
    with h show ?thesis
      by (simp add: checkbox_run is_exception_def split: prod.splits sum.splits)
  next
    case False
    with h show ?thesis
      by (simp add: checkbox_run is_exception_def split: prod.splits sum.splits)
  qed
next
  assume h: "until_presence_of_element_located d timeout locator s = (Inr el, sa) \<and>
    drv_execute_script d ScrollIntoView [JElem el] sa = (Inr u, sb) \<and>
    el_is_selected d el sb = (Inr cur, sc) \<and> cur \<noteq> desired_state \<and>
    click_element d locator timeout (start sc) = (Inr False, stf)"
  then show "fst (click_checkbox d locator desired_state timeout (start s)) = Inr False"
    and "trace (snd (click_checkbox d locator desired_state timeout (start s))) =
        [(Until_presence timeout locator, Returned (VElem el)),
         (Execute_script ScrollIntoView [JElem el], Returned VNone),
         (Is_selected el, Returned (VBool cur))] @ trace stf"
    by (simp_all add: checkbox_run)
qed

theorem checkbox_result_is_fresh_state_witness:
  "until_presence_of_element_located selenium 15 agree unchecked_page =
     (Inr (WebElement agree), unchecked_page) \<and>
   drv_execute_script selenium ScrollIntoView [JElem (WebElement agree)] unchecked_page =
     (Inr (), unchecked_page) \<and>
   el_is_selected selenium (WebElement agree) unchecked_page = (Inr False, unchecked_page) \<and>
   fst (click_element selenium agree 15 (start unchecked_page)) = Inr True \<and>
   fst (click_checkbox selenium agree True 15 (start unchecked_page)) = Inr True \<and>
   trace (snd (click_checkbox selenium agree True 15 (start unchecked_page))) =
     [(Until_presence 15 agree, Returned (VElem (WebElement agree))),
      (Execute_script ScrollIntoView [JElem (WebElement agree)], Returned VNone),
      (Is_selected (WebElement agree), Returned (VBool False)),
      (Until_invisibility 10 overlay, Returned VNone),
      (Until_clickable 15 agree, Returned (VElem (WebElement agree))),
      (Execute_script ScrollIntoView [JElem (WebElement agree)], Returned VNone),
      (Click (WebElement agree), Returned VNone),
      (Find_element agree, Returned (VElem (WebElement agree))),
      (Is_selected (WebElement agree), Returned (VBool True))] \<and>
   until_presence_of_element_located selenium 15 agree hidden_checkbox_page =
     (Inr (WebElement agree), hidden_checkbox_page) \<and>
   drv_execute_script selenium ScrollIntoView [JElem (WebElement agree)] hidden_checkbox_page =
     (Inr (), hidden_checkbox_page) \<and>
   el_is_selected selenium (WebElement agree) hidden_checkbox_page =
     (Inr False, hidden_checkbox_page) \<and>
   fst (click_element selenium agree 15 (start hidden_checkbox_page)) = Inr False \<and>
   fst (click_checkbox selenium agree True 15 (start hidden_checkbox_page)) = Inr False \<and>
   trace (snd (click_checkbox selenium agree True 15 (start hidden_checkbox_page))) =
     [(Until_presence 15 agree, Returned (VElem (WebElement agree))),
      (Execute_script ScrollIntoView [JElem (WebElement agree)], Returned VNone),
      (Is_selected (WebElement agree), Returned (VBool False)),
      (Until_invisibility 10 overlay, Returned VNone),
      (Until_clickable 15 agree, Raised TimeoutException)]"
proof -
  let ?C = "click_element selenium agree 15 (start unchecked_page)"
  let ?F = "click_element selenium agree 15 (start hidden_checkbox_page)"
  let ?checked = "on_page [(agree, blank\<lparr>n_kind := Checkbox, n_checked := True, n_clicks := 1\<rparr>)] []"
  have p1: "until_presence_of_element_located selenium 15 agree unchecked_page =
      (Inr (WebElement agree), unchecked_page)"
    by (simp add: browser_defs unchecked_page_def page_defs)
  have p2: "drv_execute_script selenium ScrollIntoView [JElem (WebElement agree)] unchecked_page =
      (Inr (), unchecked_page)"
    by (simp add: browser_defs unchecked_page_def page_defs)
  have p3: "el_is_selected selenium (WebElement agree) unchecked_page = (Inr False, unchecked_page)"
    by (simp add: browser_defs unchecked_page_def page_defs)
  have c: "fst ?C = Inr True" "session (snd ?C) = ?checked"
    "trace (snd ?C) =
      [(Until_invisibility 10 overlay, Returned VNone),
       (Until_clickable 15 agree, Returned (VElem (WebElement agree))),
       (Execute_script ScrollIntoView [JElem (WebElement agree)], Returned VNone),
       (Click (WebElement agree), Returned VNone)]"
    by (simp_all add: click_element_run browser_defs unchecked_page_def page_defs deliver_click_def)
  then obtain stc where stc: "?C = (Inr True, stc)" "session stc = ?checked"
    "trace stc =
      [(Until_invisibility 10 overlay, Returned VNone),
       (Until_clickable 15 agree, Returned (VElem (WebElement agree))),
       (Execute_script ScrollIntoView [JElem (WebElement agree)], Returned VNone),
       (Click (WebElement agree), Returned VNone)]"
    by (cases ?C) simp
  have ok: "fst (click_checkbox selenium agree True 15 (start unchecked_page)) = Inr True \<and>
    trace (snd (click_checkbox selenium agree True 15 (start unchecked_page))) =
     [(Until_presence 15 agree, Returned (VElem (WebElement agree))),
      (Execute_script ScrollIntoView [JElem (WebElement agree)], Returned VNone),
      (Is_selected (WebElement agree), Returned (VBool False))] @ trace stc @
     [(Find_element agree, Returned (VElem (WebElement agree))),
      (Is_selected (WebElement agree), Returned (VBool True))]"
    using p1 p2 p3 stc
      checkbox_result_is_fresh_state [where d = selenium and timeout = 15 and locator = agree
        and s = unchecked_page and el = "WebElement agree" and sa = unchecked_page
        and sb = unchecked_page and sc = unchecked_page and cur = False and desired_state = True
        and stc = stc and u = "()"]
    by (simp add: browser_defs page_defs)
  have q1: "until_presence_of_element_located selenium 15 agree hidden_checkbox_page =
      (Inr (WebElement agree), hidden_checkbox_page)"
    by (simp add: browser_defs hidden_checkbox_page_def page_defs)
  have q2: "drv_execute_script selenium ScrollIntoView [JElem (WebElement agree)] hidden_checkbox_page =
      (Inr (), hidden_checkbox_page)"
    by (simp add: browser_defs hidden_checkbox_page_def page_defs)
  have q3: "el_is_selected selenium (WebElement agree) hidden_checkbox_page =
      (Inr False, hidden_checkbox_page)"
    by (simp add: browser_defs hidden_checkbox_page_def page_defs)
  have f: "fst ?F = Inr False"
    "trace (snd ?F) =
      [(Until_invisibility 10 overlay, Returned VNone),
       (Until_clickable 15 agree, Raised TimeoutException)]"
    by (simp_all add: click_element_run browser_defs hidden_checkbox_page_def page_defs)
  then obtain stf where stf: "?F = (Inr False, stf)"
    "trace stf =
      [(Until_invisibility 10 overlay, Returned VNone),
       (Until_clickable 15 agree, Raised TimeoutException)]"
    by (cases ?F) simp
  have failed: "fst (click_checkbox selenium agree True 15 (start hidden_checkbox_page)) = Inr False \<and>
    trace (snd (click_checkbox selenium agree True 15 (start hidden_checkbox_page))) =
     [(Until_presence 15 agree, Returned (VElem (WebElement agree))),
      (Execute_script ScrollIntoView [JElem (WebElement agree)], Returned VNone),
      (Is_selected (WebElement agree), Returned (VBool False))] @ trace stf"
    using q1 q2 q3 stf
      checkbox_result_is_fresh_state [where d = selenium and timeout = 15 and locator = agree
        and s = hidden_checkbox_page and el = "WebElement agree" and sa = hidden_checkbox_page
        and sb = hidden_checkbox_page and sc = hidden_checkbox_page and cur = False
        and desired_state = True and stf = stf and u = "()"]
    by simp
  show ?thesis
    using p1 p2 p3 c(1) ok stc(3) q1 q2 q3 f(1) failed stf(2) by simp
qed



text \<open>
  C7 (as stated: for every control, two consecutive calls make at most one click in
  total and the final observed state equals the desired state after each call). A
  checkbox that is present but hidden cannot be clicked: both calls return \<open>False\<close> and
  the state read stays \<open>False\<close>, not the desired \<open>True\<close>. A control that is displayed and
  enabled but whose state a click does not change is clicked once by each call: two
  clicks in total, and the state observed at the end of each call is \<open>False\<close>.
\<close>

theorem checkbox_toggle_every_control_counterexample:
  "fst (click_checkbox selenium agree True 15 (start hidden_checkbox_page)) = Inr False \<and>
   session (snd (click_checkbox selenium agree True 15 (start hidden_checkbox_page))) =
     hidden_checkbox_page \<and>
   map_option n_checked (page hidden_checkbox_page agree) = Some False \<and>
   fst (click_checkbox selenium agree True 15 (start inert_control_page)) = Inr False \<and>
   trace (snd (click_checkbox selenium agree True 15 (start inert_control_page))) =
     [(Until_presence 15 agree, Returned (VElem (WebElement agree))),
      (Execute_script ScrollIntoView [JElem (WebElement agree)], Returned VNone),
      (Is_selected (WebElement agree), Returned (VBool False)),
      (Until_invisibility 10 overlay, Returned VNone),
      (Until_clickable 15 agree, Returned (VElem (WebElement agree))),
      (Execute_script ScrollIntoView [JElem (WebElement agree)], Returned VNone),
      (Click (WebElement agree), Returned VNone),
      (Find_element agree, Returned (VElem (WebElement agree))),
      (Is_selected (WebElement agree), Returned (VBool False))] \<and>
   session (snd (click_checkbox selenium agree True 15 (start inert_control_page))) =
     on_page [(agree, blank\<lparr>n_clicks := 1\<rparr>)] [] \<and>
   fst (click_checkbox selenium agree True 15
          (start (on_page [(agree, blank\<lparr>n_clicks := 1\<rparr>)] []))) = Inr False \<and>
   trace (snd (click_checkbox selenium agree True 15
          (start (on_page [(agree, blank\<lparr>n_clicks := 1\<rparr>)] [])))) =
     [(Until_presence 15 agree, Returned (VElem (WebElement agree))),
      (Execute_script ScrollIntoView [JElem (WebElement agree)], Returned VNone),
      (Is_selected (WebElement agree), Returned (VBool False)),
      (Until_invisibility 10 overlay, Returned VNone),
      (Until_clickable 15 agree, Returned (VElem (WebElement agree))),
      (Execute_script ScrollIntoView [JElem (WebElement agree)], Returned VNone),
      (Click (WebElement agree), Returned VNone),
      (Find_element agree, Returned (VElem (WebElement agree))),
      (Is_selected (WebElement agree), Returned (VBool False))] \<and>
   map_option n_clicks
     (page (session (snd (click_checkbox selenium agree True 15
          (start (on_page [(agree, blank\<lparr>n_clicks := 1\<rparr>)] []))))) agree) = Some 2"
proof -
  note defs = click_checkbox_def click_checkbox_try_def checkbox_verification_def
    click_element_run wait_presence_def is_selected_def browser_defs deliver_click_def
    page_defs
  have hidden:
    "fst (click_checkbox selenium agree True 15 (start hidden_checkbox_page)) = Inr False"
    "session (snd (click_checkbox selenium agree True 15 (start hidden_checkbox_page))) =
       hidden_checkbox_page"
    "map_option n_checked (page hidden_checkbox_page agree) = Some False"
    by (simp_all add: defs hidden_checkbox_page_def)
  have first:
    "fst (click_checkbox selenium agree True 15 (start inert_control_page)) = Inr False"
    "trace (snd (click_checkbox selenium agree True 15 (start inert_control_page))) =
     [(Until_presence 15 agree, Returned (VElem (WebElement agree))),
      (Execute_script ScrollIntoView [JElem (WebElement agree)], Returned VNone),
      (Is_selected (WebElement agree), Returned (VBool False)),
      (Until_invisibility 10 overlay, Returned VNone),
      (Until_clickable 15 agree, Returned (VElem (WebElement agree))),
      (Execute_script ScrollIntoView [JElem (WebElement agree)], Returned VNone),
      (Click (WebElement agree), Returned VNone),
      (Find_element agree, Returned (VElem (WebElement agree))),
      (Is_selected (WebElement agree), Returned (VBool False))]"
    "session (snd (click_checkbox selenium agree True 15 (start inert_control_page))) =
     on_page [(agree, blank\<lparr>n_clicks := 1\<rparr>)] []"
    by (simp_all add: defs inert_control_page_def)
  have second:
    "fst (click_checkbox selenium agree True 15
          (start (on_page [(agree, blank\<lparr>n_clicks := 1\<rparr>)] []))) = Inr False"
    "trace (snd (click_checkbox selenium agree True 15
          (start (on_page [(agree, blank\<lparr>n_clicks := 1\<rparr>)] [])))) =
     [(Until_presence 15 agree, Returned (VElem (WebElement agree))),
      (Execute_script ScrollIntoView [JElem (WebElement agree)], Returned VNone),
      (Is_selected (WebElement agree), Returned (VBool False)),
      (Until_invisibility 10 overlay, Returned VNone),
      (Until_clickable 15 agree, Returned (VElem (WebElement agree))),
      (Execute_script ScrollIntoView [JElem (WebElement agree)], Returned VNone),
      (Click (WebElement agree), Returned VNone),
      (Find_element agree, Returned (VElem (WebElement agree))),
      (Is_selected (WebElement agree), Returned (VBool False))]"
    "map_option n_clicks
     (page (session (snd (click_checkbox selenium agree True 15
          (start (on_page [(agree, blank\<lparr>n_clicks := 1\<rparr>)] []))))) agree) = Some 2"
    by (simp_all add: defs)
  show ?thesis
    using hidden first second by simp
qed

text \<open>One call of Checkbox Toggle on the reference browser: a displayed, enabled checkbox,
  no overlay showing, no fault. The call ends by locating the checkbox again and reading
  the desired state from it.\<close>

lemma checkbox_single_call:
  assumes "faults b = []" "page b l = Some n" "n_kind n = Checkbox" "n_displayed n"
    "\<not> n_disabled n" "case page b overlay of None \<Rightarrow> True | Some ov \<Rightarrow> \<not> n_displayed ov"
  shows "fst (click_checkbox selenium l desired t (start b)) = Inr True"
    and "session (snd (click_checkbox selenium l desired t (start b))) =
      b\<lparr>page := (page b)(l := Some (if n_checked n = desired then n else deliver_click n))\<rparr>"
    and "list_ex click_attempt (trace (snd (click_checkbox selenium l desired t (start b)))) =
      (n_checked n \<noteq> desired)"
    and "take 2 (rev (trace (snd (click_checkbox selenium l desired t (start b))))) =
      [(Is_selected (WebElement l), Returned (VBool desired)),
       (Find_element l, Returned (VElem (WebElement l)))]"
proof -
  have ne: "l \<noteq> overlay" using assms by auto
  have ov: "page b overlay = None \<or> (\<exists>ov. page b overlay = Some ov \<and> \<not> n_displayed ov)"
    using assms(6) by (cases "page b overlay") auto
  note defs = click_checkbox_def click_checkbox_try_def checkbox_verification_def
    click_element_run wait_presence_def is_selected_def browser_defs deliver_click_def
  show "fst (click_checkbox selenium l desired t (start b)) = Inr True"
    using assms(1-5) ne ov by (cases "n_checked n = desired"; cases "n_obscured n") (auto simp: defs)
  show "session (snd (click_checkbox selenium l desired t (start b))) =
      b\<lparr>page := (page b)(l := Some (if n_checked n = desired then n else deliver_click n))\<rparr>"
    using assms(1-5) ne ov by (cases "n_checked n = desired"; cases "n_obscured n") (auto simp: defs)
  show "list_ex click_attempt (trace (snd (click_checkbox selenium l desired t (start b)))) =
      (n_checked n \<noteq> desired)"
    using assms(1-5) ne ov by (cases "n_checked n = desired"; cases "n_obscured n") (auto simp: defs)
  show "take 2 (rev (trace (snd (click_checkbox selenium l desired t (start b))))) =
      [(Is_selected (WebElement l), Returned (VBool desired)),
       (Find_element l, Returned (VElem (WebElement l)))]"
    using assms(1-5) ne ov by (cases "n_checked n = desired"; cases "n_obscured n") (auto simp: defs)
qed

text \<open>
  C7 (as amended). For every driver, a call that finds the control already in the desired
  state makes no click attempt, standard or forced. On the reference browser, for every
  checkbox that is displayed and enabled, with no overlay showing and no fault, and for
  every desired state: the first call returns \<open>True\<close>, ends by locating the checkbox again
  and reading from it the desired state, and leaves the checkbox in the desired state,
  making no click attempt when it was there already; the second call with the same
  desired state does the same and makes no click attempt; the clicks delivered to the
  checkbox by the two calls together number one when its state had to change and none
  otherwise.
\<close>

theorem checkbox_toggle_idempotent:
  "(until_presence_of_element_located d timeout locator s = (Inr el, sa) \<and>
    drv_execute_script d ScrollIntoView [JElem el] sa = (Inr u, sb) \<and>
    el_is_selected d el sb = (Inr desired_state, sc) \<longrightarrow>
      \<not> list_ex click_attempt
          (trace (snd (click_checkbox d locator desired_state timeout (start s))))) \<and>
   (faults b = [] \<and> page b locator = Some n \<and> n_kind n = Checkbox \<and> n_displayed n \<and>
    \<not> n_disabled n \<and> (case page b overlay of None \<Rightarrow> True | Some ov \<Rightarrow> \<not> n_displayed ov) \<longrightarrow>
      (let first = click_checkbox selenium locator desired_state timeout (start b);
           second = click_checkbox selenium locator desired_state timeout
                      (start (session (snd first)))
       in fst first = Inr True \<and>
          take 2 (rev (trace (snd first))) =
            [(Is_selected (WebElement locator), Returned (VBool desired_state)),
             (Find_element locator, Returned (VElem (WebElement locator)))] \<and>
          map_option n_checked (page (session (snd first)) locator) = Some desired_state \<and>
          (n_checked n = desired_state \<longrightarrow> \<not> list_ex click_attempt (trace (snd first))) \<and>
          fst second = Inr True \<and>
          take 2 (rev (trace (snd second))) =
            [(Is_selected (WebElement locator), Returned (VBool desired_state)),
             (Find_element locator, Returned (VElem (WebElement locator)))] \<and>
          map_option n_checked (page (session (snd second)) locator) = Some desired_state \<and>
          \<not> list_ex click_attempt (trace (snd second)) \<and>
          map_option n_clicks (page (session (snd second)) locator) =
            Some (n_clicks n + (if n_checked n = desired_state then 0 else 1))))"
proof (intro conjI impI)
  assume "until_presence_of_element_located d timeout locator s = (Inr el, sa) \<and>
    drv_execute_script d ScrollIntoView [JElem el] sa = (Inr u, sb) \<and>
    el_is_selected d el sb = (Inr desired_state, sc)"
  then show "\<not> list_ex click_attempt
      (trace (snd (click_checkbox d locator desired_state timeout (start s))))"
    by (simp add: checkbox_run split: prod.splits sum.splits if_splits)
next
  assume h: "faults b = [] \<and> page b locator = Some n \<and> n_kind n = Checkbox \<and> n_displayed n \<and>
    \<not> n_disabled n \<and> (case page b overlay of None \<Rightarrow> True | Some ov \<Rightarrow> \<not> n_displayed ov)"
  define n' where "n' = (if n_checked n = desired_state then n else deliver_click n)"
  define b' where "b' = b\<lparr>page := (page b)(locator := Some n')\<rparr>"
  have ne: "locator \<noteq> overlay" using h by auto
  have first: "fst (click_checkbox selenium locator desired_state timeout (start b)) = Inr True"
    "session (snd (click_checkbox selenium locator desired_state timeout (start b))) = b'"
    "list_ex click_attempt (trace (snd (click_checkbox selenium locator desired_state timeout (start b)))) =
      (n_checked n \<noteq> desired_state)"
    "take 2 (rev (trace (snd (click_checkbox selenium locator desired_state timeout (start b))))) =
      [(Is_selected (WebElement locator), Returned (VBool desired_state)),
       (Find_element locator, Returned (VElem (WebElement locator)))]"
    using checkbox_single_call [of b locator n desired_state timeout] h
    by (simp_all add: n'_def b'_def)
  have n': "n_kind n' = Checkbox" "n_displayed n'" "\<not> n_disabled n'" "n_checked n' = desired_state"
    "n_clicks n' = n_clicks n + (if n_checked n = desired_state then 0 else 1)"
    using h by (auto simp: n'_def deliver_click_def)
  have b': "faults b' = []" "page b' locator = Some n'"
    "case page b' overlay of None \<Rightarrow> True | Some ov \<Rightarrow> \<not> n_displayed ov"
    using h ne by (simp_all add: b'_def)
  have second: "fst (click_checkbox selenium locator desired_state timeout (start b')) = Inr True"
    "session (snd (click_checkbox selenium locator desired_state timeout (start b'))) = b'"
    "\<not> list_ex click_attempt (trace (snd (click_checkbox selenium locator desired_state timeout (start b'))))"
    "take 2 (rev (trace (snd (click_checkbox selenium locator desired_state timeout (start b'))))) =
      [(Is_selected (WebElement locator), Returned (VBool desired_state)),
       (Find_element locator, Returned (VElem (WebElement locator)))]"
    using checkbox_single_call [of b' locator n' desired_state timeout] b' n'
    by (simp_all add: b'_def)
  show "let first = click_checkbox selenium locator desired_state timeout (start b);
           second = click_checkbox selenium locator desired_state timeout
                      (start (session (snd first)))
       in fst first = Inr True \<and>
          take 2 (rev (trace (snd first))) =
            [(Is_selected (WebElement locator), Returned (VBool desired_state)),
             (Find_element locator, Returned (VElem (WebElement locator)))] \<and>
          map_option n_checked (page (session (snd first)) locator) = Some desired_state \<and>
          (n_checked n = desired_state \<longrightarrow> \<not> list_ex click_attempt (trace (snd first))) \<and>
          fst second = Inr True \<and>
          take 2 (rev (trace (snd second))) =
            [(Is_selected (WebElement locator), Returned (VBool desired_state)),
             (Find_element locator, Returned (VElem (WebElement locator)))] \<and>
          map_option n_checked (page (session (snd second)) locator) = Some desired_state \<and>
          \<not> list_ex click_attempt (trace (snd second)) \<and>
          map_option n_clicks (page (session (snd second)) locator) =
            Some (n_clicks n + (if n_checked n = desired_state then 0 else 1))"
    using first second b'(2) n'(4,5) by (simp add: Let_def)
qed

theorem checkbox_toggle_idempotent_witness:
  "until_presence_of_element_located selenium 15 agree (checked_page []) =
     (Inr (WebElement agree), checked_page []) \<and>
   drv_execute_script selenium ScrollIntoView [JElem (WebElement agree)] (checked_page []) =
     (Inr (), checked_page []) \<and>
   el_is_selected selenium (WebElement agree) (checked_page []) = (Inr True, checked_page []) \<and>
   \<not> list_ex click_attempt
       (trace (snd (click_checkbox selenium agree True 15 (start (checked_page []))))) \<and>
   faults unchecked_page = [] \<and>
   page unchecked_page agree = Some (blank\<lparr>n_kind := Checkbox\<rparr>) \<and>
   page unchecked_page overlay = None \<and>
   fst (click_checkbox selenium agree True 15 (start unchecked_page)) = Inr True \<and>
   take 2 (rev (trace (snd (click_checkbox selenium agree True 15 (start unchecked_page))))) =
     [(Is_selected (WebElement agree), Returned (VBool True)),
      (Find_element agree, Returned (VElem (WebElement agree)))] \<and>
   map_option n_checked
     (page (session (snd (click_checkbox selenium agree True 15 (start unchecked_page)))) agree) =
     Some True \<and>
   fst (click_checkbox selenium agree True 15
          (start (session (snd (click_checkbox selenium agree True 15 (start unchecked_page)))))) =
     Inr True \<and>
   take 2 (rev (trace (snd (click_checkbox selenium agree True 15
          (start (session (snd (click_checkbox selenium agree True 15 (start unchecked_page))))))))) =
     [(Is_selected (WebElement agree), Returned (VBool True)),
      (Find_element agree, Returned (VElem (WebElement agree)))] \<and>
   map_option n_clicks
     (page (session (snd (click_checkbox selenium agree True 15
          (start (session (snd (click_checkbox selenium agree True 15 (start unchecked_page)))))))) agree) =
     Some 1"
proof -
  have p1: "until_presence_of_element_located selenium 15 agree (checked_page []) =
     (Inr (WebElement agree), checked_page [])"
    by (simp add: browser_defs checked_page_def page_defs)
  have p2: "drv_execute_script selenium ScrollIntoView [JElem (WebElement agree)] (checked_page []) =
     (Inr (), checked_page [])"
    by (simp add: browser_defs checked_page_def page_defs)
  have p3: "el_is_selected selenium (WebElement agree) (checked_page []) = (Inr True, checked_page [])"
    by (simp add: browser_defs checked_page_def page_defs)
  have q: "faults unchecked_page = []" "page unchecked_page agree = Some (blank\<lparr>n_kind := Checkbox\<rparr>)"
    "page unchecked_page overlay = None"
    by (simp_all add: unchecked_page_def page_defs)
  note T = checkbox_toggle_idempotent [where d = selenium and timeout = 15 and locator = agree
        and s = "checked_page []" and el = "WebElement agree" and sa = "checked_page []"
        and sb = "checked_page []" and sc = "checked_page []" and desired_state = True
        and u = "()" and b = unchecked_page and n = "blank\<lparr>n_kind := Checkbox\<rparr>"]
  have a: "\<not> list_ex click_attempt
       (trace (snd (click_checkbox selenium agree True 15 (start (checked_page [])))))"
    using p1 p2 p3 T by simp
  have b: "fst (click_checkbox selenium agree True 15 (start unchecked_page)) = Inr True \<and>
   take 2 (rev (trace (snd (click_checkbox selenium agree True 15 (start unchecked_page))))) =
     [(Is_selected (WebElement agree), Returned (VBool True)),
      (Find_element agree, Returned (VElem (WebElement agree)))] \<and>
   map_option n_checked
     (page (session (snd (click_checkbox selenium agree True 15 (start unchecked_page)))) agree) =
     Some True \<and>
   fst (click_checkbox selenium agree True 15
          (start (session (snd (click_checkbox selenium agree True 15 (start unchecked_page)))))) =
     Inr True \<and>
   take 2 (rev (trace (snd (click_checkbox selenium agree True 15
          (start (session (snd (click_checkbox selenium agree True 15 (start unchecked_page))))))))) =
     [(Is_selected (WebElement agree), Returned (VBool True)),
      (Find_element agree, Returned (VElem (WebElement agree)))] \<and>
   map_option n_clicks
     (page (session (snd (click_checkbox selenium agree True 15
          (start (session (snd (click_checkbox selenium agree True 15 (start unchecked_page)))))))) agree) =
     Some 1"
    using q T by (simp add: Let_def blank_def)
  show ?thesis
    using p1 p2 p3 q a b by simp
qed

section \<open>Dropdown Selection\<close>

lemmas dropdown_run = select_dropdown_option_entered [unfolded start_def]
  select_dropdown_option_try_def monad_defs wait_presence_def execute_script_def Select_def
  select_by_visible_text_def select_by_value_def select_by_index_def int_of_str_def
  first_selected_option_text_def start_def

text \<open>
  C9. Once the option is selected the call should return \<open>True\<close> whatever the read-back
  yields; the docstring promises \<open>True\<close> if the option was successfully selected. The
  read-back \<^verbatim>\<open>select.first_selected_option.text\<close> is inside the \<^verbatim>\<open>try\<close> block with no
  handler of its own. Here Spain is selected in the page, the read-back raises
  \<^verbatim>\<open>StaleElementReferenceException\<close>, and the call logs an unexpected error and returns
  \<open>False\<close>, leaving Spain selected.
\<close>

theorem readback_failure_returns_False:
  "fst (select_dropdown_option selenium country ''Spain'' ''visible_text'' 15
          (start (countries_page [None, None, None, None, Some StaleElementReferenceException]))) =
     Inr False \<and>
   trace (snd (select_dropdown_option selenium country ''Spain'' ''visible_text'' 15
          (start (countries_page [None, None, None, None, Some StaleElementReferenceException])))) =
     [(Until_presence 15 country, Returned (VElem (WebElement country))),
      (Execute_script ScrollIntoView [JElem (WebElement country)], Returned VNone),
      (Select_init (WebElement country), Returned VNone),
      (Select_by_visible_text (WebElement country) ''Spain'', Returned VNone),
      (First_selected_option_text (WebElement country), Raised StaleElementReferenceException)] \<and>
   map_option n_selected
     (page (session (snd (select_dropdown_option selenium country ''Spain'' ''visible_text'' 15
          (start (countries_page [None, None, None, None, Some StaleElementReferenceException])))))
        country) = Some (Some 1) \<and>
   logs (snd (select_dropdown_option selenium country ''Spain'' ''visible_text'' 15
          (start (countries_page [None, None, None, None, Some StaleElementReferenceException])))) =
     [(INFO, msg_attempting_select, [AStr ''Spain'', ALoc country]),
      (ERROR, msg_unexpected_dropdown, [ALoc country, AExn StaleElementReferenceException])]"
  by (simp add: select_dropdown_option_def select_dropdown_option_try_def monad_defs call_defs
      start_def browser_defs countries_page_def page_defs is_exception_def)

text \<open>
  What the read-back does for every driver: when the control is present, the scroll and
  \<^verbatim>\<open>Select(...)\<close> succeed and the requested option is selected (by visible text, by value,
  or by an index that parses), then if the read-back returns a label the call returns
  \<open>True\<close> whatever the label is, and the last log line carries the stripped label; if the
  read-back raises an \<^verbatim>\<open>Exception\<close>, the call returns \<open>False\<close>.
\<close>

lemma readback_is_logged_or_fatal:
  "until_presence_of_element_located d timeout locator s = (Inr el, sa) \<and>
   drv_execute_script d ScrollIntoView [JElem el] sa = (Inr u, sb) \<and>
   sel_init d el sb = (Inr v, sc) \<and>
   (mode = ''visible_text'' \<and> sel_select_by_visible_text d el option_text sc = (Inr w, sd) \<or>
    mode = ''value'' \<and> sel_select_by_value d el option_text sc = (Inr w, sd) \<or>
    mode = ''index'' \<and> py_int d option_text = Some i \<and>
      sel_select_by_index d el i sc = (Inr w, sd)) \<longrightarrow>
     (case sel_first_selected_option_text d el sd of
        (Inr label, se) \<Rightarrow>
          fst (select_dropdown_option d locator option_text mode timeout (start s)) = Inr True \<and>
          last (logs (snd (select_dropdown_option d locator option_text mode timeout (start s)))) =
            (INFO, msg_selected, [AStr (py_strip label)])
      | (Inl x, se) \<Rightarrow>
          fst (select_dropdown_option d locator option_text mode timeout (start s)) =
            (if is_exception x then Inr False else Inl x))"
proof
  assume h: "until_presence_of_element_located d timeout locator s = (Inr el, sa) \<and>
   drv_execute_script d ScrollIntoView [JElem el] sa = (Inr u, sb) \<and>
   sel_init d el sb = (Inr v, sc) \<and>
   (mode = ''visible_text'' \<and> sel_select_by_visible_text d el option_text sc = (Inr w, sd) \<or>
    mode = ''value'' \<and> sel_select_by_value d el option_text sc = (Inr w, sd) \<or>
    mode = ''index'' \<and> py_int d option_text = Some i \<and>
      sel_select_by_index d el i sc = (Inr w, sd))"
  then consider
      (by_text) "mode = ''visible_text''" "sel_select_by_visible_text d el option_text sc = (Inr w, sd)"
    | (by_value) "mode = ''value''" "sel_select_by_value d el option_text sc = (Inr w, sd)"
    | (by_index) "mode = ''index''" "py_int d option_text = Some i"
        "sel_select_by_index d el i sc = (Inr w, sd)"
    by blast
  then show "case sel_first_selected_option_text d el sd of
        (Inr label, se) \<Rightarrow>
          fst (select_dropdown_option d locator option_text mode timeout (start s)) = Inr True \<and>
          last (logs (snd (select_dropdown_option d locator option_text mode timeout (start s)))) =
            (INFO, msg_selected, [AStr (py_strip label)])
      | (Inl x, se) \<Rightarrow>
          fst (select_dropdown_option d locator option_text mode timeout (start s)) =
            (if is_exception x then Inr False else Inl x)"
  proof cases
    case by_text
    with h show ?thesis
      by (simp add: dropdown_run not_found_returns_False is_exception_def
          split: prod.splits sum.splits)
  next
    case by_value
    with h show ?thesis
      by (simp add: dropdown_run not_found_returns_False is_exception_def
          split: prod.splits sum.splits)
  next
    case by_index
    with h show ?thesis
      by (simp add: dropdown_run not_found_returns_False is_exception_def
          split: prod.splits sum.splits)
  qed
qed

section \<open>Text Input on the reference browser\<close>

lemmas input_text_run = input_text_def input_text_try_def input_text_fallback_def monad_defs
  wait_invisibility_def wait_clickable_def execute_script_def is_enabled_def get_attribute_def
  clear_def send_keys_def find_element_def start_def truthy_def

text \<open>
  C4 (as stated: the field ends holding exactly the given string). With
  \<^verbatim>\<open>clear_first=False\<close> the field is not cleared and \<^verbatim>\<open>send_keys\<close> types after what it
  holds: a present, enabled, writable field holding \<^verbatim>\<open>old\<close> ends holding
  \<^verbatim>\<open>olda@b.com\<close>, and the call returns \<open>True\<close>.
\<close>

theorem value_is_exactly_the_string_counterexample:
  "page prefilled_page email =
     Some (blank\<lparr>n_kind := TextField, n_value := ''old''\<rparr>) \<and>
   fst (input_text selenium email ''a@b.com'' 15 False (start prefilled_page)) = Inr True \<and>
   map_option n_value
     (page (session (snd (input_text selenium email ''a@b.com'' 15 False (start prefilled_page))))
        email) = Some ''olda@b.com''"
  by (simp add: input_text_run browser_defs prefilled_page_def page_defs)

text \<open>
  C4 (as amended). On the reference browser, for every locator pointing to a present,
  displayed, enabled, writable field, with no overlay showing and no fault: Text Input
  returns \<open>True\<close>, the \<^verbatim>\<open>input\<close> and then the \<^verbatim>\<open>change\<close> notification are dispatched on
  the element, and the field's value ends as exactly the given string when
  \<^verbatim>\<open>clear_first\<close> is true, and as its previous content followed by the given string when
  \<^verbatim>\<open>clear_first\<close> is false.
\<close>

theorem text_input_sets_value:
  assumes "faults b = []" and "page b locator = Some n"
    and "n_displayed n" and "\<not> n_disabled n" and "\<not> n_readOnly n"
    and "case page b overlay of None \<Rightarrow> True | Some ov \<Rightarrow> \<not> n_displayed ov"
  shows "fst (input_text selenium locator str timeout clear_first (start b)) = Inr True \<and>
    page (session (snd (input_text selenium locator str timeout clear_first (start b)))) locator =
      Some (n\<lparr>n_value := (if clear_first then str else n_value n @ str),
              n_events := n_events n @ [''input'', ''change'']\<rparr>)"
proof -
  have ne: "locator \<noteq> overlay" using assms by auto
  have ov: "page b overlay = None \<or> (\<exists>ov. page b overlay = Some ov \<and> \<not> n_displayed ov)"
    using assms(6) by (cases "page b overlay") auto
  show ?thesis
    using assms(1-5) ne ov by (cases clear_first) (auto simp: input_text_run browser_defs)
qed

theorem text_input_sets_value_witness:
  "faults prefilled_page = [] \<and>
   page prefilled_page email = Some (blank\<lparr>n_kind := TextField, n_value := ''old''\<rparr>) \<and>
   page prefilled_page overlay = None \<and>
   fst (input_text selenium email ''a@b.com'' 15 True (start prefilled_page)) = Inr True \<and>
   map_option n_value
     (page (session (snd (input_text selenium email ''a@b.com'' 15 True (start prefilled_page))))
        email) = Some ''a@b.com'' \<and>
   map_option n_events
     (page (session (snd (input_text selenium email ''a@b.com'' 15 True (start prefilled_page))))
        email) = Some [''input'', ''change'']"
proof -
  have q: "faults prefilled_page = []"
    "page prefilled_page email = Some (blank\<lparr>n_kind := TextField, n_value := ''old''\<rparr>)"
    "page prefilled_page overlay = None"
    by (simp_all add: prefilled_page_def page_defs)
  show ?thesis
    using q text_input_sets_value [of prefilled_page email
        "blank\<lparr>n_kind := TextField, n_value := ''old''\<rparr>" "''a@b.com''" 15 True]
    by (simp add: blank_def)
qed

text \<open>
  The force path. A field that is read-only (and enabled, displayed, with no overlay
  showing) is written by script: it ends holding the given value, with its read-only and
  disabled flags cleared and both notifications dispatched. A field that is disabled
  never gets that far: the wait for \<^verbatim>\<open>element_to_be_clickable\<close> requires an enabled
  element, so it times out, and the call returns \<open>False\<close> leaving the page as it was.
\<close>

lemma readonly_field_is_forced:
  assumes "faults b = []" and "page b locator = Some n"
    and "n_displayed n" and "\<not> n_disabled n" and "n_readOnly n"
    and "case page b overlay of None \<Rightarrow> True | Some ov \<Rightarrow> \<not> n_displayed ov"
  shows "fst (input_text selenium locator str timeout clear_first (start b)) = Inr True \<and>
    page (session (snd (input_text selenium locator str timeout clear_first (start b)))) locator =
      Some (n\<lparr>n_readOnly := False, n_disabled := False, n_value := str,
              n_events := n_events n @ [''input'', ''change'']\<rparr>)"
proof -
  have ne: "locator \<noteq> overlay" using assms by auto
  have ov: "page b overlay = None \<or> (\<exists>ov. page b overlay = Some ov \<and> \<not> n_displayed ov)"
    using assms(6) by (cases "page b overlay") auto
  show ?thesis
    using assms(1-5) ne ov by (auto simp: input_text_run browser_defs)
qed

lemma disabled_field_times_out:
  assumes "faults b = []" and "page b locator = Some n" and "n_disabled n"
  shows "fst (input_text selenium locator str timeout clear_first (start b)) = Inr False \<and>
    session (snd (input_text selenium locator str timeout clear_first (start b))) = b"
  using assms
  by (cases "page b overlay") (auto simp: input_text_run browser_defs)

text \<open>
  C5. The claim holds for read-only fields (above) and fails for disabled ones: on a
  page whose field is present, displayed and disabled, Text Input makes two calls, the
  second of which times out, returns \<open>False\<close>, and leaves the field disabled and empty.
  The branch \<^verbatim>\<open>if not element.is_enabled() or ...\<close> that would force-enable it is behind
  the wait that excludes it.
\<close>

theorem disabled_field_is_never_filled:
  "page disabled_field_page email = Some (blank\<lparr>n_kind := TextField, n_disabled := True\<rparr>) \<and>
   fst (input_text selenium email ''a@b.com'' 15 True (start disabled_field_page)) = Inr False \<and>
   trace (snd (input_text selenium email ''a@b.com'' 15 True (start disabled_field_page))) =
     [(Until_invisibility 10 overlay, Returned VNone),
      (Until_clickable 15 email, Raised TimeoutException)] \<and>
   page (session (snd (input_text selenium email ''a@b.com'' 15 True (start disabled_field_page))))
     email = Some (blank\<lparr>n_kind := TextField, n_disabled := True\<rparr>)"
  by (simp add: input_text_run browser_defs disabled_field_page_def page_defs)

end
